theory Spec2Isabelle
  imports Complex_Main
begin

section \<open>Python strings\<close>

text \<open>
  A Python \<open>str\<close> is modelled as a \<open>string\<close> whose characters are the code points
  0..255 (Latin-1); \<open>length\<close> counts characters, as \<open>len\<close> does. The accented
  letters of the Spanish messages and of the name pattern are written \<open>CHR 0x..\<close>.
\<close>

text \<open>\<open>c.lower()\<close>: the upper-case letters are A to Z (65..90) and the accented
  capitals 192..222 but for the multiplication sign 215; the lower-case letter is 32
  further on, that is, with bit 5 set.\<close>

definition lower_char :: "char \<Rightarrow> char" where
  "lower_char c =
     (let n = (of_char c :: nat)
      in if (65 \<le> n \<and> n \<le> 90) \<or> (192 \<le> n \<and> n \<le> 222 \<and> n \<noteq> 215)
         then (case c of Char b0 b1 b2 b3 b4 b5 b6 b7 \<Rightarrow> Char b0 b1 b2 b3 b4 True b6 b7)
         else c)"

text \<open>\<open>s.lower()\<close>\<close>

definition lower :: "string \<Rightarrow> string" where
  "lower s = map lower_char s"

text \<open>\<open>s.split(d)\<close> for a one-character separator: never the empty list.\<close>

fun split :: "char \<Rightarrow> string \<Rightarrow> string list" where
  "split d [] = [[]]"
| "split d (c # cs) =
     (if c = d then [] # split d cs
      else (case split d cs of [] \<Rightarrow> [[c]] | w # ws \<Rightarrow> (c # w) # ws))"

text \<open>\<open>s.rsplit(d, 1)\<close> for a string that contains \<open>d\<close>: the parts before and after
  the last \<open>d\<close>.\<close>

definition rsplit1 :: "char \<Rightarrow> string \<Rightarrow> string \<times> string" where
  "rsplit1 d s =
     (rev (tl (dropWhile (\<lambda>c. c \<noteq> d) (rev s))), rev (takeWhile (\<lambda>c. c \<noteq> d) (rev s)))"

text \<open>\<open>c.isspace()\<close> on the code points 0..255, which is also what \<open>\s\<close> matches.\<close>

definition isspace :: "char \<Rightarrow> bool" where
  "isspace c \<longleftrightarrow> c \<in> set [CHR 0x09, CHR 0x0A, CHR 0x0B, CHR 0x0C, CHR 0x0D,
                             CHR 0x1C, CHR 0x1D, CHR 0x1E, CHR 0x1F, CHR 0x20,
                             CHR 0x85, CHR 0xA0]"

text \<open>\<open>s.strip()\<close>\<close>

definition strip :: "string \<Rightarrow> string" where
  "strip s = rev (dropWhile isspace (rev (dropWhile isspace s)))"

text \<open>\<open>str(n)\<close> for a natural number.\<close>

function show_nat :: "nat \<Rightarrow> string" where
  "show_nat n =
     (if n < 10 then [''0123456789'' ! n]
      else show_nat (n div 10) @ [''0123456789'' ! (n mod 10)])"
  by pat_completeness auto
termination
  by (relation "measure id") auto

declare show_nat.simps [simp del]

text \<open>\<open>str(i)\<close> for an integer.\<close>

definition show_int :: "int \<Rightarrow> string" where
  "show_int i = (if i < 0 then CHR ''-'' # show_nat (nat (- i)) else show_nat (nat i))"

section \<open>Exceptions\<close>

text \<open>
  Each exception class the code raises or catches is a constructor carrying the text
  that \<open>str(e)\<close> gives (for a \<open>KeyError\<close>, the key); \<open>Exception\<close> is a plain
  \<open>Exception(...)\<close>, \<open>OtherError\<close> any other subclass of \<open>Exception\<close>
  (\<open>TypeError\<close>, \<open>OverflowError\<close>, ...). None of the classes below is a subclass
  of another, but all are caught by \<open>except Exception\<close>.
\<close>

datatype exn =
    ValueError string
  | KeyError string
  | Exception string
  | ValidationError string
  | BusinessLogicError string
  | GoogleCloudError string
  | SQLAlchemyError string
  | OtherError string

text \<open>\<open>str(e)\<close>; for a \<open>KeyError\<close> the \<open>repr\<close> of the key, which for the column
  names of this program is the name in single quotes.\<close>

fun str_exn :: "exn \<Rightarrow> string" where
  "str_exn (ValueError m) = m"
| "str_exn (KeyError k) = [CHR 0x27] @ k @ [CHR 0x27]"
| "str_exn (Exception m) = m"
| "str_exn (ValidationError m) = m"
| "str_exn (BusinessLogicError m) = m"
| "str_exn (GoogleCloudError m) = m"
| "str_exn (SQLAlchemyError m) = m"
| "str_exn (OtherError m) = m"

section \<open>The job history record and its store\<close>

text \<open>
  \<open>ProductProcessedHistory\<close> (models/product\_processed\_history.py). Instants are
  readings of the UTC clock. The table \<open>products_processed_history\<close> is a map from
  the primary key to the row; a row is the record with its id set, so that
  \<open>_model_to_db\<close> is the identity.
\<close>

type_synonym instant = int

record history =
  hist_id :: "string option"
  file_name :: string
  user_id :: string
  status :: string
  result :: "string option"
  created_at :: instant
  updated_at :: "instant option"

type_synonym history_store = "string \<rightharpoonup> history"

text \<open>\<open>ProductProcessedHistory.validate\<close>: \<open>Some m\<close> is \<open>raise ValueError(m)\<close>.\<close>

definition history_validate :: "history \<Rightarrow> string option" where
  "history_validate h =
     (if file_name h = [] then Some ''El nombre del archivo es obligatorio''
      else if user_id h = [] then Some ''El ID del usuario es obligatorio''
      else if status h = [] then Some ''El estado es obligatorio''
      else if length (file_name h) > 100
        then Some ''El nombre del archivo no puede exceder 100 caracteres''
      else if length (user_id h) > 36
        then Some ''El ID del usuario no puede exceder 36 caracteres''
      else if length (status h) > 20
        then Some ''El estado no puede exceder 20 caracteres''
      else None)"

text \<open>The text of the driver's error for a duplicate primary or unique key.\<close>

definition duplicate_key_msg :: string where
  "duplicate_key_msg = ''duplicate key value violates unique constraint''"

text \<open>
  \<open>ProductProcessedHistoryRepository.create\<close>. \<open>uuid\<close> is the value \<open>uuid.uuid4()\<close>
  returns; \<open>fault\<close> is the \<open>SQLAlchemyError\<close> the session raises for a reason of its
  own (connection lost, ...), if any. A failed commit is rolled back: the table is
  unchanged.
\<close>

definition history_create ::
  "string \<Rightarrow> string option \<Rightarrow> history \<Rightarrow> history_store \<Rightarrow> (exn + history) \<times> history_store" where
  "history_create uuid fault h store =
     (case history_validate h of
        Some m \<Rightarrow> (Inl (ValueError m), store)
      | None \<Rightarrow>
          (let i = (case hist_id h of None \<Rightarrow> uuid | Some j \<Rightarrow> if j = [] then uuid else j);
               h' = h\<lparr>hist_id := Some i\<rparr>
           in case fault of
                Some m \<Rightarrow>
                  (Inl (Exception (''Error al crear registro de historial: '' @ m)), store)
              | None \<Rightarrow>
                  if store i \<noteq> None
                  then (Inl (Exception (''Error al crear registro de historial: ''
                                         @ duplicate_key_msg)), store)
                  else (Inr h', store(i \<mapsto> h'))))"

text \<open>\<open>_db_to_model\<close> of the row whose primary key is \<open>i\<close>.\<close>

definition db_to_model :: "string \<Rightarrow> history \<Rightarrow> history" where
  "db_to_model i row = row\<lparr>hist_id := Some i\<rparr>"

text \<open>\<open>ProductProcessedHistoryRepository.get_by_id\<close>\<close>

definition history_get_by_id ::
  "string option \<Rightarrow> string \<Rightarrow> history_store \<Rightarrow> exn + history option" where
  "history_get_by_id fault i store =
     (case fault of
        Some m \<Rightarrow> Inl (Exception (''Error al obtener registro de historial por ID: '' @ m))
      | None \<Rightarrow> Inr (map_option (db_to_model i) (store i)))"

text \<open>
  \<open>ProductProcessedHistoryRepository.update\<close>: the row's \<open>updated_at\<close> is the clock
  reading \<open>now\<close> taken inside the repository; a missing row is not an error.
\<close>

definition history_update ::
  "instant \<Rightarrow> string option \<Rightarrow> history \<Rightarrow> history_store \<Rightarrow> (exn + history) \<times> history_store" where
  "history_update now fault h store =
     (case history_validate h of
        Some m \<Rightarrow> (Inl (ValueError m), store)
      | None \<Rightarrow>
          (case fault of
             Some m \<Rightarrow>
               (Inl (Exception (''Error al actualizar registro de historial: '' @ m)), store)
           | None \<Rightarrow>
               (case hist_id h of
                  None \<Rightarrow> (Inr h, store)
                | Some i \<Rightarrow>
                    (case store i of
                       None \<Rightarrow> (Inr h, store)
                     | Some row \<Rightarrow>
                         (Inr h,
                          store(i \<mapsto> row\<lparr>file_name := file_name h, user_id := user_id h,
                                          status := status h, result := result h,
                                          updated_at := Some now\<rparr>))))))"

text \<open>The field bounds of a job record (the column widths of the table).\<close>

definition within_bounds :: "history \<Rightarrow> bool" where
  "within_bounds h \<longleftrightarrow>
     file_name h \<noteq> [] \<and> length (file_name h) \<le> 100 \<and>
     user_id h \<noteq> [] \<and> length (user_id h) \<le> 36 \<and>
     status h \<noteq> [] \<and> length (status h) \<le> 20"

section \<open>The generated storage key\<close>

text \<open>\<open>ProductImportService._generate_new_filename\<close>; \<open>file_uuid\<close> is
  \<open>str(uuid.uuid4())\<close>.\<close>

definition generate_new_filename :: "string \<Rightarrow> string \<Rightarrow> string" where
  "generate_new_filename original_filename file_uuid =
     (let (base_name, extension) =
            (if CHR ''.'' \<in> set original_filename then rsplit1 CHR ''.'' original_filename
             else (original_filename, []))
      in if extension \<noteq> [] then base_name @ ''_'' @ file_uuid @ ''.'' @ extension
         else base_name @ ''_'' @ file_uuid)"

text \<open>The extension by which both services pick the parser:
  \<open>filename.lower().split('.')[-1]\<close>.\<close>

definition file_extension :: "string \<Rightarrow> string" where
  "file_extension filename = last (split CHR ''.'' (lower filename))"

section \<open>Cells, rows and the Python library\<close>

text \<open>
  A Python \<open>float\<close> is a rational, an infinity (\<open>FInf True\<close> is \<open>+inf\<close>) or
  \<open>nan\<close>; rounding is outside the model. A cell of a parsed file is \<open>None\<close>, a
  \<open>str\<close>, an \<open>int\<close> or a \<open>float\<close>; the missing value of pandas is
  \<open>CFloat FNaN\<close>. A row (a pandas \<open>Series\<close>) maps column names to cells.
\<close>

datatype pyfloat = FNum rat | FNaN | FInf bool

datatype cell = CNone | CStr string | CInt int | CFloat pyfloat

type_synonym row = "(string \<times> cell) list"

type_synonym bytes = "char list"

text \<open>A \<open>datetime\<close>: the wall-clock reading and the UTC offset, if it has one.\<close>

record datetime =
  wall :: instant
  tzinfo :: "int option"

text \<open>
  The functions of Python, pandas and the cloud client that the program calls and whose
  workings are not part of it. \<open>None\<close> and \<open>Inl\<close> stand for a raised exception;
  \<open>cloud_error_str m\<close> is \<open>str(GoogleCloudError(m))\<close>.
\<close>

record pylib =
  fromisoformat :: "string \<Rightarrow> datetime option"
  to_datetime :: "cell \<Rightarrow> datetime option"
  str_float :: "pyfloat \<Rightarrow> string"
  int_str :: "string \<Rightarrow> exn + int"
  float_str :: "string \<Rightarrow> exn + pyfloat"
  read_csv :: "bytes \<Rightarrow> exn + row list"
  read_excel :: "bytes \<Rightarrow> exn + row list"
  cloud_error_str :: "string \<Rightarrow> string"

text \<open>\<open>row[col]\<close>\<close>

definition getitem :: "row \<Rightarrow> string \<Rightarrow> exn + cell" where
  "getitem r col = (case map_of r col of None \<Rightarrow> Inl (KeyError col) | Some c \<Rightarrow> Inr c)"

text \<open>\<open>pd.notna(row.get(col))\<close>\<close>

fun notna :: "cell option \<Rightarrow> bool" where
  "notna None = False"
| "notna (Some CNone) = False"
| "notna (Some (CFloat FNaN)) = False"
| "notna (Some c) = True"

text \<open>\<open>str(x)\<close>, \<open>int(x)\<close> and \<open>float(x)\<close> of a cell.\<close>

fun py_str :: "pylib \<Rightarrow> cell \<Rightarrow> string" where
  "py_str L CNone = ''None''"
| "py_str L (CStr s) = s"
| "py_str L (CInt i) = show_int i"
| "py_str L (CFloat f) = str_float L f"

fun py_int :: "pylib \<Rightarrow> cell \<Rightarrow> exn + int" where
  "py_int L CNone = Inl (OtherError
     (''int() argument must be a string, a bytes-like object or a real number, not ''
      @ [CHR 0x27] @ ''NoneType'' @ [CHR 0x27]))"
| "py_int L (CStr s) = int_str L s"
| "py_int L (CInt i) = Inr i"
| "py_int L (CFloat (FNum r)) = Inr (if r < 0 then \<lceil>r\<rceil> else \<lfloor>r\<rfloor>)"
| "py_int L (CFloat FNaN) = Inl (ValueError ''cannot convert float NaN to integer'')"
| "py_int L (CFloat (FInf b)) = Inl (OtherError ''cannot convert float infinity to integer'')"

fun py_float :: "pylib \<Rightarrow> cell \<Rightarrow> exn + pyfloat" where
  "py_float L CNone = Inl (OtherError
     (''float() argument must be a string or a real number, not ''
      @ [CHR 0x27] @ ''NoneType'' @ [CHR 0x27]))"
| "py_float L (CStr s) = float_str L s"
| "py_float L (CInt i) = Inr (FNum (of_int i))"
| "py_float L (CFloat f) = Inr f"

text \<open>\<open>s.replace('Z', '+00:00')\<close>\<close>

definition replace_Z :: "string \<Rightarrow> string" where
  "replace_Z s = concat (map (\<lambda>c. if c = CHR ''Z'' then ''+00:00'' else [c]) s)"

text \<open>Sequencing of statements that may raise.\<close>

fun try_bind :: "exn + 'a \<Rightarrow> ('a \<Rightarrow> exn + 'b) \<Rightarrow> exn + 'b" where
  "try_bind (Inl e) f = Inl e"
| "try_bind (Inr x) f = f x"

section \<open>The catalog entity\<close>

text \<open>
  \<open>Product\<close> (models/product.py). \<open>expiration_date\<close> may hold \<open>None\<close>, a \<open>str\<close>
  or a \<open>datetime\<close>; \<open>quantity\<close> is an \<open>int\<close> and \<open>price\<close> a \<open>float\<close>, so the two
  \<open>isinstance\<close> checks of the validation always pass. The two timestamps that the
  constructor stamps are read by no operation here and are left out.
\<close>

datatype expiry = ExpNone | ExpStr string | ExpDate datetime

record product =
  prod_id :: "nat option"
  sku :: string
  name :: string
  expiration_date :: expiry
  quantity :: int
  price :: pyfloat
  location :: string
  description :: string
  product_type :: string
  provider_id :: string
  photo_filename :: "string option"
  photo_url :: "string option"

text \<open>
  \<open>re.match('^...$', s)\<close>: \<open>$\<close> matches at the end of the string and also just
  before a newline that ends it.
\<close>

definition re_dollar :: "(string \<Rightarrow> bool) \<Rightarrow> string \<Rightarrow> bool" where
  "re_dollar P s \<longleftrightarrow> P s \<or> (s \<noteq> [] \<and> last s = CHR 0x0A \<and> P (butlast s))"

definition isdigit :: "char \<Rightarrow> bool" where
  "isdigit c \<longleftrightarrow> c \<in> set ''0123456789''"

text \<open>\<open>^MED-\d{4}$\<close>\<close>

definition sku_pattern :: "string \<Rightarrow> bool" where
  "sku_pattern = re_dollar (\<lambda>s. length s = 8 \<and> take 4 s = ''MED-'' \<and> list_all isdigit (drop 4 s))"

text \<open>The character class of the name pattern: letters, digits, \<open>\s\<close> and the
  accented letters a e i o u, n with tilde and u with diaeresis, in both cases.\<close>

definition name_char :: "char \<Rightarrow> bool" where
  "name_char c \<longleftrightarrow>
     c \<in> set ''abcdefghijklmnopqrstuvwxyzABCDEFGHIJKLMNOPQRSTUVWXYZ0123456789'' \<or> isspace c \<or>
     c \<in> set [CHR 0xE1, CHR 0xE9, CHR 0xED, CHR 0xF3, CHR 0xFA,
               CHR 0xC1, CHR 0xC9, CHR 0xCD, CHR 0xD3, CHR 0xDA,
               CHR 0xF1, CHR 0xD1, CHR 0xFC, CHR 0xDC]"

definition name_pattern :: "string \<Rightarrow> bool" where
  "name_pattern = re_dollar (\<lambda>s. s \<noteq> [] \<and> list_all name_char s)"

text \<open>\<open>^[A-Z]-\d{2}-\d{2}$\<close>\<close>

definition location_pattern :: "string \<Rightarrow> bool" where
  "location_pattern = re_dollar (\<lambda>s. case s of
       [a, h1, d1, d2, h2, d3, d4] \<Rightarrow>
         a \<in> set ''ABCDEFGHIJKLMNOPQRSTUVWXYZ'' \<and> h1 = CHR ''-'' \<and> isdigit d1 \<and> isdigit d2 \<and>
         h2 = CHR ''-'' \<and> isdigit d3 \<and> isdigit d4
     | _ \<Rightarrow> False)"

definition ishex :: "char \<Rightarrow> bool" where
  "ishex c \<longleftrightarrow> c \<in> set ''0123456789abcdef''"

text \<open>\<open>^[0-9a-f]{8}-[0-9a-f]{4}-[0-9a-f]{4}-[0-9a-f]{4}-[0-9a-f]{12}$\<close>: five groups
  of hexadecimal digits, of lengths 8, 4, 4, 4 and 12, with hyphens between them.\<close>

definition uuid_pattern :: "string \<Rightarrow> bool" where
  "uuid_pattern = re_dollar (\<lambda>s. case split CHR ''-'' s of
       [a, b, c, d, e] \<Rightarrow>
         map length [a, b, c, d, e] = [8, 4, 4, 4, 12] \<and> list_all ishex (a @ b @ c @ d @ e)
     | _ \<Rightarrow> False)"

text \<open>\<open>s.endswith(suffix)\<close>\<close>

definition endswith :: "string \<Rightarrow> string \<Rightarrow> bool" where
  "endswith s suffix \<longleftrightarrow> length suffix \<le> length s \<and> drop (length s - length suffix) s = suffix"

definition validate_sku :: "product \<Rightarrow> string option" where
  "validate_sku p =
     (if sku p = [] then Some ''El SKU es obligatorio''
      else if \<not> sku_pattern (sku p)
        then Some (''El SKU debe seguir el formato MED-XXXX (4 d'' @ [CHR 0xED]
                   @ ''gitos num'' @ [CHR 0xE9] @ ''ricos)'')
      else None)"

definition validate_name :: "product \<Rightarrow> string option" where
  "validate_name p =
     (if name p = [] then Some ''El nombre es obligatorio''
      else if length (strip (name p)) < 3 then Some ''El nombre debe tener al menos 3 caracteres''
      else if \<not> name_pattern (name p)
        then Some (''El nombre debe contener '' @ [CHR 0xFA] @ ''nicamente caracteres alfanum''
                   @ [CHR 0xE9] @ ''ricos, espacios y tildes'')
      else None)"

text \<open>\<open>_validate_expiration_date\<close> replaces a \<open>str\<close> by the parsed \<open>datetime\<close>, so it
  returns the field's new value; \<open>now\<close> is \<open>datetime.utcnow()\<close>.\<close>

definition validate_expiration_date :: "pylib \<Rightarrow> instant \<Rightarrow> product \<Rightarrow> string + expiry" where
  "validate_expiration_date L now p =
     (let parsed =
        (case expiration_date p of
           ExpNone \<Rightarrow> Inl ''La fecha de vencimiento es obligatoria''
         | ExpStr s \<Rightarrow>
             (if s = [] then Inl ''La fecha de vencimiento es obligatoria''
              else (case fromisoformat L (replace_Z s) of
                      None \<Rightarrow> Inl (''Formato de fecha inv'' @ [CHR 0xE1] @ ''lido'')
                    | Some d \<Rightarrow> Inr d))
         | ExpDate d \<Rightarrow> Inr d)
      in case parsed of
           Inl m \<Rightarrow> Inl m
         | Inr d \<Rightarrow>
             if wall d \<le> now
             then Inl ''La fecha de vencimiento debe ser posterior a la fecha actual''
             else Inr (ExpDate d))"

definition validate_quantity :: "product \<Rightarrow> string option" where
  "validate_quantity p =
     (if quantity p < 1 \<or> quantity p > 9999 then Some ''La cantidad debe estar entre 1 y 9999''
      else None)"

text \<open>\<open>x <= 0\<close> on floats: false for \<open>nan\<close>.\<close>

fun float_le_zero :: "pyfloat \<Rightarrow> bool" where
  "float_le_zero (FNum r) = (r \<le> 0)"
| "float_le_zero FNaN = False"
| "float_le_zero (FInf b) = (\<not> b)"

definition validate_price :: "product \<Rightarrow> string option" where
  "validate_price p =
     (if float_le_zero (price p) then Some ''El precio debe ser un valor positivo'' else None)"

definition validate_location :: "product \<Rightarrow> string option" where
  "validate_location p =
     (if location p = [] then Some (''La ubicaci'' @ [CHR 0xF3] @ ''n es obligatoria'')
      else if \<not> location_pattern (location p)
        then Some (''La ubicaci'' @ [CHR 0xF3]
                   @ ''n debe seguir el formato P-EE-NN (Pasillo: A-Z, Estante: 01-99, Nivel: 01-99)'')
      else None)"

definition valid_types :: "string list" where
  "valid_types = [''Alto valor'', ''Seguridad'', ''Cadena fr'' @ [CHR 0xED] @ ''a'']"

definition validate_product_type :: "product \<Rightarrow> string option" where
  "validate_product_type p =
     (if product_type p = [] then Some ''El tipo de producto es obligatorio''
      else if product_type p \<notin> set valid_types
        then Some (''El tipo de producto debe ser: Alto valor, Seguridad o Cadena fr''
                   @ [CHR 0xED] @ ''a'')
      else None)"

definition validate_provider_id :: "product \<Rightarrow> string option" where
  "validate_provider_id p =
     (if provider_id p = [] then Some ''El ID del proveedor es obligatorio''
      else if \<not> uuid_pattern (lower (provider_id p))
        then Some (''El ID del proveedor debe ser un UUID v'' @ [CHR 0xE1] @ ''lido'')
      else None)"

definition validate_photo_filename :: "product \<Rightarrow> string option" where
  "validate_photo_filename p =
     (case photo_filename p of
        None \<Rightarrow> None
      | Some f \<Rightarrow>
          if f = [] then None
          else if \<not> list_ex (endswith (lower f)) [''.jpg'', ''.jpeg'', ''.png'', ''.gif'']
            then Some ''La foto debe ser un archivo JPG, PNG o GIF''
          else None)"

text \<open>\<open>Product.validate\<close>: the first failing check raises \<open>ValueError\<close>; otherwise
  the product as the checks leave it.\<close>

definition product_validate :: "pylib \<Rightarrow> instant \<Rightarrow> product \<Rightarrow> string + product" where
  "product_validate L now p =
     (case validate_sku p of Some m \<Rightarrow> Inl m | None \<Rightarrow>
      case validate_name p of Some m \<Rightarrow> Inl m | None \<Rightarrow>
      case validate_expiration_date L now p of Inl m \<Rightarrow> Inl m | Inr e \<Rightarrow>
      let p' = p\<lparr>expiration_date := e\<rparr> in
      case validate_quantity p' of Some m \<Rightarrow> Inl m | None \<Rightarrow>
      case validate_price p' of Some m \<Rightarrow> Inl m | None \<Rightarrow>
      case validate_location p' of Some m \<Rightarrow> Inl m | None \<Rightarrow>
      case validate_product_type p' of Some m \<Rightarrow> Inl m | None \<Rightarrow>
      case validate_provider_id p' of Some m \<Rightarrow> Inl m | None \<Rightarrow>
      case validate_photo_filename p' of Some m \<Rightarrow> Inl m | None \<Rightarrow> Inr p')"

section \<open>The catalog store\<close>

text \<open>The table \<open>products\<close>: its rows and the next value of the autoincrement key.
  The column \<open>sku\<close> is unique.\<close>

record catalog =
  products :: "product list"
  next_id :: nat

text \<open>
  \<open>ProductRepository.create\<close>: a \<open>ValueError\<close> of the validation is not caught here;
  a \<open>SQLAlchemyError\<close> of the commit (the unique key, or \<open>fault\<close>) is rolled back
  and raised again as a plain \<open>Exception\<close>.
\<close>

definition product_create ::
  "pylib \<Rightarrow> instant \<Rightarrow> string option \<Rightarrow> product \<Rightarrow> catalog \<Rightarrow> (exn + product) \<times> catalog" where
  "product_create L now fault p cat =
     (case product_validate L now p of
        Inl m \<Rightarrow> (Inl (ValueError m), cat)
      | Inr p' \<Rightarrow>
          (case fault of
             Some m \<Rightarrow> (Inl (Exception (''Error al crear producto: '' @ m)), cat)
           | None \<Rightarrow>
               if sku p' \<in> set (map sku (products cat))
               then (Inl (Exception (''Error al crear producto: '' @ duplicate_key_msg)), cat)
               else (let q = p'\<lparr>prod_id := Some (next_id cat)\<rparr>
                     in (Inr q, \<lparr>products = products cat @ [q], next_id = Suc (next_id cat)\<rparr>))))"

section \<open>The Import Consumer\<close>

subsection \<open>Mapping a row to a catalog entity\<close>

text \<open>The expiry column: strict ISO first, then the flexible parse of pandas.\<close>

definition parse_expiration :: "pylib \<Rightarrow> cell \<Rightarrow> exn + datetime" where
  "parse_expiration L c =
     (let expiration_date_str = py_str L c
      in case fromisoformat L (replace_Z expiration_date_str) of
           Some d \<Rightarrow> Inr d
         | None \<Rightarrow>
             (case to_datetime L c of
                Some d \<Rightarrow> Inr d
              | None \<Rightarrow> Inl (ValueError (''Formato de fecha inv'' @ [CHR 0xE1] @ ''lido: ''
                                          @ expiration_date_str))))"

text \<open>\<open>str(row[col]).strip()\<close>\<close>

definition str_strip_col :: "pylib \<Rightarrow> row \<Rightarrow> string \<Rightarrow> exn + string" where
  "str_strip_col L r col = try_bind (getitem r col) (\<lambda>c. Inr (strip (py_str L c)))"

text \<open>\<open>str(row[col]).strip() if pd.notna(row.get(col)) and row.get(col) != '' else None\<close>\<close>

definition optional_col :: "pylib \<Rightarrow> row \<Rightarrow> string \<Rightarrow> exn + string option" where
  "optional_col L r col =
     (if notna (map_of r col) \<and> map_of r col \<noteq> Some (CStr [])
      then try_bind (str_strip_col L r col) (\<lambda>s. Inr (Some s))
      else Inr None)"

text \<open>The body of the \<open>try\<close> of \<open>_create_product_from_row\<close>, the arguments of the
  constructor evaluated in the order in which they are written.\<close>

definition create_product_from_row_body :: "pylib \<Rightarrow> row \<Rightarrow> exn + product" where
  "create_product_from_row_body L r =
     try_bind (getitem r ''expiration_date'') (\<lambda>c_exp.
     try_bind (parse_expiration L c_exp) (\<lambda>exp_date.
     try_bind (str_strip_col L r ''sku'') (\<lambda>v_sku.
     try_bind (str_strip_col L r ''name'') (\<lambda>v_name.
     try_bind (getitem r ''quantity'') (\<lambda>c_quantity.
     try_bind (py_int L c_quantity) (\<lambda>v_quantity.
     try_bind (getitem r ''price'') (\<lambda>c_price.
     try_bind (py_float L c_price) (\<lambda>v_price.
     try_bind (str_strip_col L r ''location'') (\<lambda>v_location.
     try_bind (if notna (map_of r ''description'') then str_strip_col L r ''description''
               else Inr []) (\<lambda>v_description.
     try_bind (str_strip_col L r ''product_type'') (\<lambda>v_product_type.
     try_bind (str_strip_col L r ''provider_id'') (\<lambda>v_provider_id.
     try_bind (optional_col L r ''photo_filename'') (\<lambda>v_photo_filename.
     try_bind (optional_col L r ''photo_url'') (\<lambda>v_photo_url.
       Inr \<lparr>prod_id = None, sku = v_sku, name = v_name, expiration_date = ExpDate exp_date,
            quantity = v_quantity, price = v_price, location = v_location,
            description = v_description, product_type = v_product_type,
            provider_id = v_provider_id, photo_filename = v_photo_filename,
            photo_url = v_photo_url\<rparr>))))))))))))))"

text \<open>\<open>_create_product_from_row\<close>: every exception leaves as a \<open>ValueError\<close>; \<open>Inl m\<close>
  is \<open>raise ValueError(m)\<close>.\<close>

definition create_product_from_row :: "pylib \<Rightarrow> row \<Rightarrow> string + product" where
  "create_product_from_row L r =
     (case create_product_from_row_body L r of
        Inr p \<Rightarrow> Inr p
      | Inl (KeyError k) \<Rightarrow> Inl (''Columna requerida no encontrada: '' @ str_exn (KeyError k))
      | Inl (ValueError m) \<Rightarrow> Inl (''Error de validaci'' @ [CHR 0xF3] @ ''n: '' @ m)
      | Inl e \<Rightarrow> Inl (''Error al crear producto: '' @ str_exn e))"

subsection \<open>The row loop\<close>

text \<open>
  What one invocation of the consumer meets outside the program: the library, the
  clock reading and the database fault (if any) while row \<open>i\<close> (counted from 0) is
  persisted, the faults of the four calls to the job history store, the fault of the
  download, and the clock reading of the updates.
\<close>

record consumer_env =
  lib :: pylib
  row_clock :: "nat \<Rightarrow> instant"
  row_fault :: "nat \<Rightarrow> string option"
  lookup_fault :: "string option"
  download_fault :: "string option"
  finalize_fault :: "string option"
  recovery_lookup_fault :: "string option"
  recovery_update_fault :: "string option"
  update_clock :: instant

text \<open>The body of the loop for the row of index \<open>i\<close>: \<open>Inl m\<close> is an exception whose
  \<open>str\<close> is \<open>m\<close>.\<close>

definition ingest_row :: "consumer_env \<Rightarrow> nat \<Rightarrow> row \<Rightarrow> catalog \<Rightarrow> (string + product) \<times> catalog" where
  "ingest_row E i r cat =
     (case create_product_from_row (lib E) r of
        Inl m \<Rightarrow> (Inl m, cat)
      | Inr p \<Rightarrow>
          (case product_create (lib E) (row_clock E i) (row_fault E i) p cat of
             (Inl e, cat') \<Rightarrow> (Inl (str_exn e), cat')
           | (Inr q, cat') \<Rightarrow> (Inr q, cat')))"

text \<open>\<open>for index, row in df.iterrows()\<close> with the counters, the error list and the
  catalog as loop state; the index of a parsed file counts the data rows from 0.\<close>

fun row_loop ::
  "consumer_env \<Rightarrow> nat \<Rightarrow> row list \<Rightarrow> nat \<times> nat \<times> string list \<times> catalog \<Rightarrow>
   nat \<times> nat \<times> string list \<times> catalog" where
  "row_loop E i [] acc = acc"
| "row_loop E i (r # rs) (successful_records, failed_records, errors, cat) =
     (case ingest_row E i r cat of
        (Inr q, cat') \<Rightarrow>
          row_loop E (Suc i) rs (successful_records + 1, failed_records, errors, cat')
      | (Inl m, cat') \<Rightarrow>
          row_loop E (Suc i) rs
            (successful_records, failed_records + 1,
             errors @ [''Fila '' @ show_nat (i + 2) @ '': '' @ m], cat'))"

text \<open>The parser is chosen by the extension of the file name.\<close>

definition read_file :: "pylib \<Rightarrow> string \<Rightarrow> bytes \<Rightarrow> exn + row list" where
  "read_file L filename file_content =
     (let extension = file_extension filename
      in if extension = ''csv'' then read_csv L file_content
         else if extension \<in> set [''xls'', ''xlsx''] then read_excel L file_content
         else Inl (Exception (''Formato de archivo no soportado: '' @ extension)))"

text \<open>\<open>_process_file_content\<close>: total, successful and failed records and the errors.\<close>

definition process_file_content ::
  "consumer_env \<Rightarrow> bytes \<Rightarrow> string \<Rightarrow> catalog \<Rightarrow>
   (exn + nat \<times> nat \<times> nat \<times> string list) \<times> catalog" where
  "process_file_content E file_content filename cat =
     (case read_file (lib E) filename file_content of
        Inl e \<Rightarrow> (Inl (Exception (''Error al leer archivo: '' @ str_exn e)), cat)
      | Inr df \<Rightarrow>
          (case row_loop E 0 df (0, 0, [], cat) of
             (successful_records, failed_records, errors, cat') \<Rightarrow>
               (Inr (length df, successful_records, failed_records, errors), cat')))"

subsection \<open>Processing a job\<close>

text \<open>A stored object and its metadata.\<close>

record blob =
  content :: bytes
  metadata :: "(string \<times> string) list"

text \<open>An event on the topic of the imports.\<close>

record event =
  ev_history_id :: "string option"
  event_type :: string
  timestamp :: instant

text \<open>The stores: job history, catalog, bucket and topic.\<close>

record system =
  histories :: history_store
  catalog :: catalog
  blobs :: "string \<rightharpoonup> blob"
  published :: "event list"

record config =
  MAX_IMPORT_PRODUCTS :: int
  BUCKET_FOLDER_PROCESSED_PRODUCTS :: string

text \<open>\<open>CloudStorageService.download_file\<close>: every failure is a \<open>GoogleCloudError\<close>;
  \<open>fault\<close> is the text of the error that the client raises for a reason of its own.\<close>

definition download_file ::
  "pylib \<Rightarrow> string option \<Rightarrow> string \<Rightarrow> string \<Rightarrow> (string \<rightharpoonup> blob) \<Rightarrow> exn + bytes" where
  "download_file L fault filename folder bs =
     (let full_path = (if folder \<noteq> [] then folder @ ''/'' @ filename else filename)
      in case fault of
           Some m \<Rightarrow> Inl (GoogleCloudError m)
         | None \<Rightarrow>
             (case bs full_path of
                None \<Rightarrow> Inl (GoogleCloudError
                               (cloud_error_str L (''El archivo '' @ full_path
                                                   @ '' no existe en el bucket'')))
              | Some b \<Rightarrow> Inr (content b)))"

record processing_result =
  res_history_id :: string
  res_file_name :: string
  total_records :: nat
  successful_records :: nat
  failed_records :: nat
  res_result :: string
  res_errors :: "string list"

text \<open>The body of the \<open>try\<close> of \<open>process_file_by_history_id\<close>.\<close>

definition process_file_try ::
  "config \<Rightarrow> consumer_env \<Rightarrow> string \<Rightarrow> system \<Rightarrow> (exn + processing_result) \<times> system" where
  "process_file_try C E history_id s =
     (case history_get_by_id (lookup_fault E) history_id (histories s) of
        Inl e \<Rightarrow> (Inl e, s)
      | Inr None \<Rightarrow>
          (Inl (Exception (''No se encontr'' @ [CHR 0xF3]
                           @ '' registro de historial con ID: '' @ history_id)), s)
      | Inr (Some h) \<Rightarrow>
          (case download_file (lib E) (download_fault E) (file_name h)
                  (BUCKET_FOLDER_PROCESSED_PRODUCTS C) (blobs s) of
             Inl e \<Rightarrow> (Inl e, s)
           | Inr file_content \<Rightarrow>
               (case process_file_content E file_content (file_name h) (catalog s) of
                  (Inl e, cat') \<Rightarrow> (Inl e, s\<lparr>catalog := cat'\<rparr>)
                | (Inr (n_total, n_successful, n_failed, errs), cat') \<Rightarrow>
                    (let result_message = show_nat n_successful @ ''/'' @ show_nat n_total
                                          @ '' productos registrados'';
                         h' = h\<lparr>status := ''Finalizado'', result := Some result_message,
                                 updated_at := Some (update_clock E)\<rparr>
                     in case history_update (update_clock E) (finalize_fault E) h' (histories s) of
                          (Inl e, hs') \<Rightarrow> (Inl e, s\<lparr>histories := hs', catalog := cat'\<rparr>)
                        | (Inr u, hs') \<Rightarrow>
                            (Inr \<lparr>res_history_id = history_id, res_file_name = file_name h',
                                  total_records = n_total, successful_records = n_successful,
                                  failed_records = n_failed, res_result = result_message,
                                  res_errors = errs\<rparr>,
                             s\<lparr>histories := hs', catalog := cat'\<rparr>)))))"

text \<open>The handler of \<open>except Exception as e\<close>: the job is fetched again and marked;
  an exception of the fetch or of the update is only logged.\<close>

definition mark_error :: "consumer_env \<Rightarrow> string \<Rightarrow> exn \<Rightarrow> history_store \<Rightarrow> history_store" where
  "mark_error E history_id e hs =
     (case history_get_by_id (recovery_lookup_fault E) history_id hs of
        Inl update_error \<Rightarrow> hs
      | Inr None \<Rightarrow> hs
      | Inr (Some h) \<Rightarrow>
          snd (history_update (update_clock E) (recovery_update_fault E)
                 (h\<lparr>status := ''Error'', result := Some (''Error: '' @ str_exn e),
                    updated_at := Some (update_clock E)\<rparr>) hs))"

text \<open>\<open>ProductFileProcessorService.process_file_by_history_id\<close>\<close>

definition process_file_by_history_id ::
  "config \<Rightarrow> consumer_env \<Rightarrow> string \<Rightarrow> system \<Rightarrow> (exn + processing_result) \<times> system" where
  "process_file_by_history_id C E history_id s =
     (case process_file_try C E history_id s of
        (Inr r, s') \<Rightarrow> (Inr r, s')
      | (Inl e, s') \<Rightarrow>
          (Inl (Exception (''Error al procesar archivo: '' @ str_exn e)),
           s'\<lparr>histories := mark_error E history_id e (histories s')\<rparr>))"

subsection \<open>The delivery boundary\<close>

text \<open>
  The push request of the channel: \<open>None\<close> at each level is a missing field (at the
  top, a body that is not JSON or is empty). \<open>decode\<close> is the base64 and JSON decoding
  of the data; the decoded event may lack its \<open>history_id\<close>.
\<close>

record push_message =
  data :: "string option"

record push_request =
  message :: "push_message option"

record response =
  code :: nat
  success :: bool
  resp_message :: string
  resp_data :: "processing_result option"

text \<open>\<open>jsonify({"success": False, "message": m}), c\<close>\<close>

definition json_failure :: "nat \<Rightarrow> string \<Rightarrow> response" where
  "json_failure c m = \<lparr>code = c, success = False, resp_message = m, resp_data = None\<rparr>"

text \<open>\<open>ProductProcessorController.process_products_file\<close>\<close>

definition process_products_file ::
  "config \<Rightarrow> consumer_env \<Rightarrow> (string \<Rightarrow> exn + string option) \<Rightarrow> push_request option \<Rightarrow>
   system \<Rightarrow> response \<times> system" where
  "process_products_file C E decode request s =
     (case request of
        None \<Rightarrow> (json_failure 400 (''Petici'' @ [CHR 0xF3] @ ''n sin contenido JSON''), s)
      | Some pubsub_message \<Rightarrow>
          (case message pubsub_message of
             None \<Rightarrow> (json_failure 400 (''Formato de mensaje Pub/Sub inv'' @ [CHR 0xE1]
                                            @ ''lido''), s)
           | Some msg \<Rightarrow>
               (case data msg of
                  None \<Rightarrow> (json_failure 400 ''Mensaje sin data'', s)
                | Some d \<Rightarrow>
                    (case decode d of
                       Inl e \<Rightarrow>
                         (json_failure 400 (''Error al decodificar mensaje: '' @ str_exn e), s)
                     | Inr event_history_id \<Rightarrow>
                         (case event_history_id of
                            None \<Rightarrow> (json_failure 400 ''Evento sin history_id'', s)
                          | Some history_id \<Rightarrow>
                              if history_id = []
                              then (json_failure 400 ''Evento sin history_id'', s)
                              else (case process_file_by_history_id C E history_id s of
                                      (Inr r, s') \<Rightarrow>
                                        (\<lparr>code = 200, success = True,
                                          resp_message = ''Archivo procesado exitosamente'',
                                          resp_data = Some r\<rparr>, s')
                                    | (Inl e, s') \<Rightarrow>
                                        (json_failure 500
                                           (''Error al procesar archivo: '' @ str_exn e), s')))))))"

section \<open>The Import Submission Handler\<close>

text \<open>A werkzeug \<open>FileStorage\<close>: its name (which may be missing) and its bytes.\<close>

record file_storage =
  filename :: "string option"
  stream :: bytes

text \<open>
  What one submission meets outside the program: the library, the two fresh UUIDs
  (for the storage key and for the job id), the failure of the upload and of the
  insert (if any), the exception of the publisher client (if any), and the clock.
\<close>

record submit_env =
  sub_lib :: pylib
  file_uuid :: string
  history_uuid :: string
  upload_fault :: "string option"
  create_fault :: "string option"
  publish_fault :: "exn option"
  submit_clock :: instant

text \<open>\<open>file.filename\<close> when it is neither \<open>None\<close> nor empty.\<close>

definition named :: "file_storage option \<Rightarrow> string option" where
  "named file =
     (case file of
        None \<Rightarrow> None
      | Some f \<Rightarrow> (case filename f of None \<Rightarrow> None | Some n \<Rightarrow> if n = [] then None else Some n))"

text \<open>\<open>_validate_required_fields\<close>: \<open>Some e\<close> is \<open>raise e\<close>.\<close>

definition validate_required_fields :: "file_storage option \<Rightarrow> string \<Rightarrow> exn option" where
  "validate_required_fields file uid =
     (if named file = None then Some (ValidationError ''El archivo es obligatorio'')
      else if uid = [] \<or> strip uid = [] then Some (ValidationError ''El userId es obligatorio'')
      else None)"

text \<open>\<open>_validate_file_type\<close> on the file's name.\<close>

definition validate_file_type :: "string \<Rightarrow> exn option" where
  "validate_file_type fname =
     (if fname = [] \<or> CHR ''.'' \<notin> set fname
      then Some (ValidationError (''El archivo no tiene extensi'' @ [CHR 0xF3] @ ''n''))
      else if file_extension fname \<notin> set [''csv'', ''xls'', ''xlsx'']
        then Some (ValidationError ''Solo se permiten archivos CSV/Excel'')
      else None)"

text \<open>The read of \<open>_validate_records_count\<close>, by the extension of the name.\<close>

definition eager_parse :: "pylib \<Rightarrow> string \<Rightarrow> bytes \<Rightarrow> exn + row list" where
  "eager_parse L fname bs =
     (let extension = file_extension fname
      in if extension = ''csv'' then read_csv L bs
         else if extension \<in> set [''xls'', ''xlsx''] then read_excel L bs
         else Inl (ValidationError ''Formato de archivo no soportado''))"

text \<open>\<open>_validate_records_count\<close>: the eager parse that counts the data rows.\<close>

definition validate_records_count :: "config \<Rightarrow> pylib \<Rightarrow> string \<Rightarrow> bytes \<Rightarrow> exn option" where
  "validate_records_count C L fname bs =
     (case eager_parse L fname bs of
           Inl (ValidationError m) \<Rightarrow> Some (ValidationError m)
         | Inl e \<Rightarrow> Some (ValidationError (''Error al validar el archivo: '' @ str_exn e))
         | Inr rows \<Rightarrow>
             if int (length rows) > MAX_IMPORT_PRODUCTS C
             then Some (ValidationError
                    (''Solo se permiten cargar '' @ show_int (MAX_IMPORT_PRODUCTS C)
                     @ '' productos. El archivo contiene '' @ show_nat (length rows)
                     @ '' registros''))
             else None)"

text \<open>\<open>_upload_file_to_storage\<close>\<close>

definition upload_file_to_storage ::
  "config \<Rightarrow> string option \<Rightarrow> string \<Rightarrow> bytes \<Rightarrow> string \<Rightarrow> (string \<rightharpoonup> blob) \<Rightarrow>
   exn option \<times> (string \<rightharpoonup> blob)" where
  "upload_file_to_storage C fault original bs new_filename store =
     (let full_path = BUCKET_FOLDER_PROCESSED_PRODUCTS C @ ''/'' @ new_filename
      in case fault of
           Some m \<Rightarrow>
             (Some (BusinessLogicError (''Error al subir archivo a Cloud Storage: '' @ m)), store)
         | None \<Rightarrow>
             (None,
              store(full_path \<mapsto>
                \<lparr>content = bs,
                 metadata = [(''original_filename'', original),
                             (''uploaded_by'', ''medisupply-inventories''),
                             (''folder'', BUCKET_FOLDER_PROCESSED_PRODUCTS C)]\<rparr>)))"

text \<open>\<open>_create_history_record\<close>\<close>

definition create_history_record ::
  "submit_env \<Rightarrow> string \<Rightarrow> string \<Rightarrow> history_store \<Rightarrow> (exn + history) \<times> history_store" where
  "create_history_record E new_filename uid hs =
     (case history_create (history_uuid E) (create_fault E)
             \<lparr>hist_id = None, file_name = new_filename, user_id = uid, status = ''En curso'',
              result = None, created_at = submit_clock E, updated_at = None\<rparr> hs of
        (Inl e, hs') \<Rightarrow>
          (Inl (BusinessLogicError (''Error al crear registro de historial: '' @ str_exn e)), hs')
      | (Inr created_history, hs') \<Rightarrow> (Inr created_history, hs'))"

text \<open>\<open>PubSubService.publish_product_import_event\<close> through \<open>publish_message\<close>.\<close>

definition publish_product_import_event ::
  "submit_env \<Rightarrow> string option \<Rightarrow> event list \<Rightarrow> exn option \<times> event list" where
  "publish_product_import_event E history_id evs =
     (case publish_fault E of
        Some (GoogleCloudError m) \<Rightarrow>
          (Some (GoogleCloudError
                   (cloud_error_str (sub_lib E) (''Error al publicar mensaje en Pub/Sub: '' @ m))),
           evs)
      | Some e \<Rightarrow>
          (Some (Exception (''Error al publicar mensaje en Pub/Sub: '' @ str_exn e)), evs)
      | None \<Rightarrow>
          (None, evs @ [\<lparr>ev_history_id = history_id, event_type = ''product_import'',
                         timestamp = submit_clock E\<rparr>]))"

text \<open>\<open>_publish_import_event\<close>\<close>

definition publish_import_event ::
  "submit_env \<Rightarrow> string option \<Rightarrow> event list \<Rightarrow> exn option \<times> event list" where
  "publish_import_event E history_id evs =
     (case publish_product_import_event E history_id evs of
        (Some e, evs') \<Rightarrow>
          (Some (BusinessLogicError (''Error al publicar evento de importaci'' @ [CHR 0xF3]
                                     @ ''n: '' @ str_exn e)), evs')
      | (None, evs') \<Rightarrow> (None, evs'))"

text \<open>The body of the \<open>try\<close> of \<open>import_products_file\<close>.\<close>

definition import_products_file_try ::
  "config \<Rightarrow> submit_env \<Rightarrow> file_storage option \<Rightarrow> string \<Rightarrow> system \<Rightarrow>
   (exn + string option \<times> string) \<times> system" where
  "import_products_file_try C E file uid s =
     (case validate_required_fields file uid of
        Some e \<Rightarrow> (Inl e, s)
      | None \<Rightarrow>
     (case file of
        None \<Rightarrow> (Inl (ValidationError ''El archivo es obligatorio''), s)
      | Some f \<Rightarrow>
     (let fname = (case filename f of None \<Rightarrow> [] | Some n \<Rightarrow> n) in
      case validate_file_type fname of
        Some e \<Rightarrow> (Inl e, s)
      | None \<Rightarrow>
     (case validate_records_count C (sub_lib E) fname (stream f) of
        Some e \<Rightarrow> (Inl e, s)
      | None \<Rightarrow>
     (let new_filename = generate_new_filename fname (file_uuid E) in
      case upload_file_to_storage C (upload_fault E) fname (stream f) new_filename (blobs s) of
        (Some e, bs') \<Rightarrow> (Inl e, s\<lparr>blobs := bs'\<rparr>)
      | (None, bs') \<Rightarrow>
     (case create_history_record E new_filename uid (histories s) of
        (Inl e, hs') \<Rightarrow> (Inl e, s\<lparr>blobs := bs', histories := hs'\<rparr>)
      | (Inr h, hs') \<Rightarrow>
     (case publish_import_event E (hist_id h) (published s) of
        (Some e, evs') \<Rightarrow> (Inl e, s\<lparr>blobs := bs', histories := hs', published := evs'\<rparr>)
      | (None, evs') \<Rightarrow>
          (Inr (hist_id h, ''Archivo cargado exitosamente''),
           s\<lparr>blobs := bs', histories := hs', published := evs'\<rparr>))))))))"

text \<open>\<open>ProductImportService.import_products_file\<close>: the two error classes of the
  service pass, anything else is wrapped.\<close>

definition import_products_file ::
  "config \<Rightarrow> submit_env \<Rightarrow> file_storage option \<Rightarrow> string \<Rightarrow> system \<Rightarrow>
   (exn + string option \<times> string) \<times> system" where
  "import_products_file C E file uid s =
     (case import_products_file_try C E file uid s of
        (Inl (ValidationError m), s') \<Rightarrow> (Inl (ValidationError m), s')
      | (Inl (BusinessLogicError m), s') \<Rightarrow> (Inl (BusinessLogicError m), s')
      | (Inl e, s') \<Rightarrow>
          (Inl (BusinessLogicError (''Error al procesar importaci'' @ [CHR 0xF3]
                                    @ ''n de productos: '' @ str_exn e)), s')
      | (Inr r, s') \<Rightarrow> (Inr r, s'))"

section \<open>Sequences of invocations\<close>

text \<open>The two operations that touch job records, each with what it meets outside,
  and the run of a sequence of them from a state of the stores.\<close>

datatype invocation =
    Submit submit_env "file_storage option" string
  | Consume consumer_env string

fun invoke :: "config \<Rightarrow> invocation \<Rightarrow> system \<Rightarrow> system" where
  "invoke C (Submit E file uid) s = snd (import_products_file C E file uid s)"
| "invoke C (Consume E history_id) s = snd (process_file_by_history_id C E history_id s)"

fun run :: "config \<Rightarrow> invocation list \<Rightarrow> system \<Rightarrow> system" where
  "run C [] s = s"
| "run C (i # is) s = run C is (invoke C i s)"

section \<open>Values for the examples\<close>

text \<open>A job record as the submission creates it.\<close>

definition example_job :: history where
  "example_job = \<lparr>hist_id = None, file_name = ''products_u-1.csv'', user_id = ''user-123'',
                  status = ''En curso'', result = None, created_at = 1700000000,
                  updated_at = None\<rparr>"

text \<open>A value of \<open>str(uuid.uuid4())\<close>.\<close>

definition example_uuid :: string where
  "example_uuid = ''123e4567-e89b-42d3-a456-426614174000''"

text \<open>A configuration for both services: the default row cap, and as the folder of the
  import files the default of the consumer (the default of the submitter is
  \<open>processed-products\<close>).\<close>

definition example_config :: config where
  "example_config = \<lparr>MAX_IMPORT_PRODUCTS = 100,
                      BUCKET_FOLDER_PROCESSED_PRODUCTS = ''processed_products''\<rparr>"

text \<open>Three lines of a CSV file and the rows pandas reads from them: a valid row, a
  row whose code does not follow the pattern, and the valid row without its
  description column. Instants are seconds since 1970; the expiry is 2030-12-31.\<close>

definition csv_header :: bytes where
  "csv_header = ''sku,name,expiration_date,quantity,price,location,description,product_type,provider_id,photo_filename,photo_url'' @ [CHR 0x0A]"

definition csv_line_valid :: bytes where
  "csv_line_valid = ''MED-1234,Paracetamol 500mg,2030-12-31,100,5000.5,A-01-01,Analgesico,Alto valor,550e8400-e29b-41d4-a716-446655440000,photo.jpg,https://example.com/photo.jpg'' @ [CHR 0x0A]"

definition csv_line_bad :: bytes where
  "csv_line_bad = ''BAD,Ibuprofeno 400mg,2030-12-31,50,3500.0,B-02-03,Antiinflamatorio,Seguridad,650e8400-e29b-41d4-a716-446655440001,photo2.jpg,https://example.com/photo2.jpg'' @ [CHR 0x0A]"

definition row_valid :: row where
  "row_valid =
     [(''sku'', CStr ''MED-1234''), (''name'', CStr ''Paracetamol 500mg''),
      (''expiration_date'', CStr ''2030-12-31''), (''quantity'', CInt 100),
      (''price'', CFloat (FNum (10001 / 2))), (''location'', CStr ''A-01-01''),
      (''description'', CStr ''Analgesico''), (''product_type'', CStr ''Alto valor''),
      (''provider_id'', CStr ''550e8400-e29b-41d4-a716-446655440000''),
      (''photo_filename'', CStr ''photo.jpg''),
      (''photo_url'', CStr ''https://example.com/photo.jpg'')]"

definition row_bad :: row where
  "row_bad =
     [(''sku'', CStr ''BAD''), (''name'', CStr ''Ibuprofeno 400mg''),
      (''expiration_date'', CStr ''2030-12-31''), (''quantity'', CInt 50),
      (''price'', CFloat (FNum 3500)), (''location'', CStr ''B-02-03''),
      (''description'', CStr ''Antiinflamatorio''), (''product_type'', CStr ''Seguridad''),
      (''provider_id'', CStr ''650e8400-e29b-41d4-a716-446655440001''),
      (''photo_filename'', CStr ''photo2.jpg''),
      (''photo_url'', CStr ''https://example.com/photo2.jpg'')]"

definition row_no_description :: row where
  "row_no_description = filter (\<lambda>(col, c). col \<noteq> ''description'') row_valid"

text \<open>
  A library that does what Python, pandas and the cloud client do on the values of the
  examples: the ISO date 2030-12-31 parses, nothing else is a date, no \<open>str\<close> is a
  number, a CSV file parses to the rows that the table \<open>files\<close> gives for its bytes,
  and the text of a cloud error built from a message alone starts with its missing
  status code, \<open>None\<close>.
\<close>

definition example_lib :: "(bytes \<times> row list) list \<Rightarrow> pylib" where
  "example_lib files =
     \<lparr>fromisoformat = (\<lambda>s. if s = ''2030-12-31'' then Some \<lparr>wall = 1924905600, tzinfo = None\<rparr>
                             else None),
      to_datetime = (\<lambda>c. None),
      str_float = (\<lambda>f. ''nan''),
      int_str = (\<lambda>s. Inl (ValueError (''invalid literal for int() with base 10: ''
                                       @ [CHR 0x27] @ s @ [CHR 0x27]))),
      float_str = (\<lambda>s. Inl (ValueError (''could not convert string to float: ''
                                         @ [CHR 0x27] @ s @ [CHR 0x27]))),
      read_csv = (\<lambda>bs. case map_of files bs of
                          Some rows \<Rightarrow> Inr rows
                        | None \<Rightarrow> Inl (OtherError ''No columns to parse from file'')),
      read_excel = (\<lambda>bs. Inl (OtherError ''File is not a zip file'')),
      cloud_error_str = (\<lambda>m. ''None '' @ m)\<rparr>"

text \<open>A consumer invocation on 2025-11-06 in which nothing outside fails.\<close>

definition example_env :: "(bytes \<times> row list) list \<Rightarrow> consumer_env" where
  "example_env files =
     \<lparr>lib = example_lib files, row_clock = (\<lambda>i. 1762387200), row_fault = (\<lambda>i. None),
      lookup_fault = None, download_fault = None, finalize_fault = None,
      recovery_lookup_fault = None, recovery_update_fault = None,
      update_clock = 1762387200\<rparr>"

text \<open>The stores with nothing in them.\<close>

definition empty_catalog :: catalog where
  "empty_catalog = \<lparr>products = [], next_id = 1\<rparr>"

definition empty_system :: system where
  "empty_system = \<lparr>histories = Map.empty, catalog = empty_catalog,
                    blobs = Map.empty, published = []\<rparr>"


text \<open>The stores with the job of a submitted file: first the job alone, whose file is
  not in the bucket; then with its file of two data rows; then the job alone again,
  already finalized.\<close>

definition example_key :: string where
  "example_key = ''products_123e4567-e89b-42d3-a456-426614174000.csv''"

definition stored_job :: history where
  "stored_job = \<lparr>hist_id = Some ''job-1'', file_name = example_key, user_id = ''user-123'',
                  status = ''En curso'', result = None, created_at = 1762300800,
                  updated_at = None\<rparr>"

definition system_without_file :: system where
  "system_without_file = empty_system\<lparr>histories := [''job-1'' \<mapsto> stored_job]\<rparr>"

definition two_rows_csv :: bytes where
  "two_rows_csv = csv_header @ csv_line_bad @ csv_line_valid"

definition system_with_file :: system where
  "system_with_file =
     system_without_file\<lparr>blobs := [''processed_products/'' @ example_key \<mapsto>
        \<lparr>content = two_rows_csv,
         metadata = [(''original_filename'', ''products.csv''),
                     (''uploaded_by'', ''medisupply-inventories''),
                     (''folder'', ''processed_products'')]\<rparr>]\<rparr>"

definition finalized_job :: history where
  "finalized_job = stored_job\<lparr>status := ''Finalizado'',
                                result := Some ''1/2 productos registrados'',
                                updated_at := Some 1762387200\<rparr>"

definition system_finalized :: system where
  "system_finalized = empty_system\<lparr>histories := [''job-1'' \<mapsto> finalized_job]\<rparr>"

text \<open>The decoding of the data of one push message, whose event names the job
  \<open>job-404\<close>; nothing else decodes.\<close>

definition example_data :: string where
  "example_data = ''eyJoaXN0b3J5X2lkIjogImpvYi00MDQiLCAiZXZlbnRfdHlwZSI6ICJwcm9kdWN0X2ltcG9ydCIsICJ0aW1lc3RhbXAiOiAiMjAyNS0xMS0wNlQwMDowMDowMCJ9''"

definition example_decode :: "string \<Rightarrow> exn + string option" where
  "example_decode d = (if d = example_data then Inr (Some ''job-404'')
                       else Inl (OtherError ''Incorrect padding''))"

text \<open>The message of the consumer for a job id that has no record.\<close>

definition not_found_msg :: "string \<Rightarrow> string" where
  "not_found_msg history_id =
     ''No se encontr'' @ [CHR 0xF3] @ '' registro de historial con ID: '' @ history_id"

text \<open>
  What the two services may do to a job record: they never touch its id, file key,
  submitter or creation time, and a record that changes gets a terminal status, an
  outcome summary and an update time.
\<close>

definition evolves :: "history \<Rightarrow> history \<Rightarrow> bool" where
  "evolves h h' \<longleftrightarrow>
     hist_id h' = hist_id h \<and> file_name h' = file_name h \<and> user_id h' = user_id h \<and>
     created_at h' = created_at h \<and>
     (h' = h \<or> (status h' \<in> {''Finalizado'', ''Error''} \<and> result h' \<noteq> None \<and>
                 updated_at h' \<noteq> None))"

text \<open>A file of 101 data rows, and a submission on 2025-11-05 in which nothing outside
  fails and whose fresh identifiers are \<open>example_uuid\<close> and \<open>job-1\<close>.\<close>

definition big_csv :: bytes where
  "big_csv = csv_header @ concat (replicate 101 csv_line_valid)"

definition example_submit :: "(bytes \<times> row list) list \<Rightarrow> submit_env" where
  "example_submit files =
     \<lparr>sub_lib = example_lib files, file_uuid = example_uuid, history_uuid = ''job-1'',
      upload_fault = None, create_fault = None, publish_fault = None,
      submit_clock = 1762300800\<rparr>"

text \<open>The message of the row cap, and the blob that a submission writes.\<close>

definition row_cap_msg :: "config \<Rightarrow> nat \<Rightarrow> string" where
  "row_cap_msg C n =
     ''Solo se permiten cargar '' @ show_int (MAX_IMPORT_PRODUCTS C)
     @ '' productos. El archivo contiene '' @ show_nat n @ '' registros''"

definition uploaded_blob :: "config \<Rightarrow> string \<Rightarrow> bytes \<Rightarrow> blob" where
  "uploaded_blob C original bs =
     \<lparr>content = bs,
      metadata = [(''original_filename'', original),
                  (''uploaded_by'', ''medisupply-inventories''),
                  (''folder'', BUCKET_FOLDER_PROCESSED_PRODUCTS C)]\<rparr>"

text \<open>All three validations of a submission pass.\<close>

definition import_passes :: "config \<Rightarrow> submit_env \<Rightarrow> file_storage option \<Rightarrow> string \<Rightarrow> bool" where
  "import_passes C E fl uid \<longleftrightarrow>
     (\<exists>f n. fl = Some f \<and> filename f = Some n \<and>
        validate_required_fields fl uid = None \<and> validate_file_type n = None \<and>
        validate_records_count C (sub_lib E) n (stream f) = None)"

text \<open>The path under which a submission stores the file named \<open>n\<close>.\<close>

definition storage_path :: "config \<Rightarrow> submit_env \<Rightarrow> string \<Rightarrow> string" where
  "storage_path C E n =
     BUCKET_FOLDER_PROCESSED_PRODUCTS C @ ''/'' @ generate_new_filename n (file_uuid E)"

text \<open>The message of the handler when the publisher raised an exception of text \<open>m\<close>.\<close>

definition publish_failed_msg :: "string \<Rightarrow> string" where
  "publish_failed_msg m = ''Error al publicar evento de importaci'' @ [CHR 0xF3] @ ''n: '' @ m"

text \<open>The job record that the submission of the file named \<open>n\<close> by \<open>uid\<close>
  inserts; what the insert needs to go through (the record passes \<open>validate\<close>, the
  session raises nothing and the fresh id is not taken); and the event of the submission.\<close>

definition new_job :: "submit_env \<Rightarrow> string \<Rightarrow> string \<Rightarrow> history" where
  "new_job E n uid =
     \<lparr>hist_id = Some (history_uuid E), file_name = generate_new_filename n (file_uuid E),
      user_id = uid, status = ''En curso'', result = None, created_at = submit_clock E,
      updated_at = None\<rparr>"

definition insert_succeeds :: "submit_env \<Rightarrow> history \<Rightarrow> history_store \<Rightarrow> bool" where
  "insert_succeeds E h hs \<longleftrightarrow>
     history_validate h = None \<and> create_fault E = None \<and> hs (history_uuid E) = None"

definition import_event :: "submit_env \<Rightarrow> event" where
  "import_event E = \<lparr>ev_history_id = Some (history_uuid E), event_type = ''product_import'',
                     timestamp = submit_clock E\<rparr>"

text \<open>Two uploads named \<open>products.csv\<close>, of 101 rows and of two rows, with the
  rows pandas reads from each, and the event of the second.\<close>

definition big_upload :: file_storage where
  "big_upload = \<lparr>filename = Some ''products.csv'', stream = big_csv\<rparr>"

definition big_files :: "(bytes \<times> row list) list" where
  "big_files = [(big_csv, replicate 101 row_valid)]"

definition small_upload :: file_storage where
  "small_upload = \<lparr>filename = Some ''products.csv'', stream = two_rows_csv\<rparr>"

definition small_files :: "(bytes \<times> row list) list" where
  "small_files = [(two_rows_csv, [row_bad, row_valid])]"

definition example_event :: event where
  "example_event = \<lparr>ev_history_id = Some ''job-1'', event_type = ''product_import'',
                     timestamp = 1762300800\<rparr>"

text \<open>
  The outcome of each row when the rows are ingested one after the other from the
  catalog \<open>cat\<close>, the first row having index \<open>i\<close>: \<open>Inl m\<close> for a row that failed
  with message \<open>m\<close>. The error lines that the outcomes call for, in row order, are given
  a second time here, by recursion over the outcomes, to be compared with the loop.
\<close>

fun outcomes :: "consumer_env \<Rightarrow> nat \<Rightarrow> row list \<Rightarrow> catalog \<Rightarrow> (string + product) list" where
  "outcomes E i [] cat = []"
| "outcomes E i (r # rs) cat =
     (case ingest_row E i r cat of (out, cat') \<Rightarrow> out # outcomes E (Suc i) rs cat')"

fun error_lines :: "nat \<Rightarrow> (string + product) list \<Rightarrow> string list" where
  "error_lines i [] = []"
| "error_lines i (Inl m # outs) = (''Fila '' @ show_nat (i + 2) @ '': '' @ m) # error_lines (Suc i) outs"
| "error_lines i (Inr q # outs) = error_lines (Suc i) outs"

text \<open>The columns that \<open>_create_product_from_row\<close> reads with \<open>row[col]\<close>
  unconditionally, in the order in which it reads them.\<close>

definition required_columns :: "string list" where
  "required_columns = [''expiration_date'', ''sku'', ''name'', ''quantity'', ''price'',
                       ''location'', ''product_type'', ''provider_id'']"

text \<open>The cells of the expiry, quantity and price columns, where present, convert.\<close>

definition conversions_ok :: "pylib \<Rightarrow> row \<Rightarrow> bool" where
  "conversions_ok L r \<longleftrightarrow>
     (case map_of r ''expiration_date'' of None \<Rightarrow> True | Some c \<Rightarrow> \<not> isl (parse_expiration L c)) \<and>
     (case map_of r ''quantity'' of None \<Rightarrow> True | Some c \<Rightarrow> \<not> isl (py_int L c)) \<and>
     (case map_of r ''price'' of None \<Rightarrow> True | Some c \<Rightarrow> \<not> isl (py_float L c))"

text \<open>A file of three data rows, the third repeating the code of the second, and the
  rows pandas reads from it.\<close>

definition three_rows_csv :: bytes where
  "three_rows_csv = csv_header @ csv_line_bad @ csv_line_valid @ csv_line_valid"

definition three_files :: "(bytes \<times> row list) list" where
  "three_files = [(three_rows_csv, [row_bad, row_valid, row_valid])]"

text \<open>The valid row without its code column, and the entity of the valid row.\<close>

definition row_no_sku :: row where
  "row_no_sku = filter (\<lambda>(col, c). col \<noteq> ''sku'') row_valid"

definition product_valid :: product where
  "product_valid =
     \<lparr>prod_id = None, sku = ''MED-1234'', name = ''Paracetamol 500mg'',
      expiration_date = ExpDate \<lparr>wall = 1924905600, tzinfo = None\<rparr>, quantity = 100,
      price = FNum (10001 / 2), location = ''A-01-01'', description = ''Analgesico'',
      product_type = ''Alto valor'', provider_id = ''550e8400-e29b-41d4-a716-446655440000'',
      photo_filename = Some ''photo.jpg'',
      photo_url = Some ''https://example.com/photo.jpg''\<rparr>"

section \<open>Lemmas on strings\<close>

lemma split_not_Nil: "split d s \<noteq> []"
  by (induction s) (auto split: list.splits)

lemma split_no_sep: "d \<notin> set s \<Longrightarrow> split d s = [s]"
  by (induction s) auto

lemma split_tl_Nil: "tl (split d s) = [] \<longleftrightarrow> d \<notin> set s"
  by (induction s) (auto split: list.splits simp: split_not_Nil)

lemma last_split: "last (split d s) = rev (takeWhile (\<lambda>c. c \<noteq> d) (rev s))"
proof (induction s)
  case Nil
  show ?case by simp
next
  case (Cons c cs)
  show ?case
  proof (cases "d \<in> set cs")
    case True
    then have "tl (split d cs) \<noteq> []" by (simp add: split_tl_Nil)
    then obtain w v vs where "split d cs = w # v # vs"
      by (cases "split d cs"; cases "tl (split d cs)") auto
    with Cons True show ?thesis by (auto simp: takeWhile_append)
  next
    case False
    then show ?thesis by (auto simp: split_no_sep takeWhile_append)
  qed
qed


lemma rsplit1_append:
  assumes "d \<in> set s"
  shows "s = fst (rsplit1 d s) @ [d] @ snd (rsplit1 d s)"
proof -
  let ?P = "\<lambda>c. c \<noteq> d"
  have ne: "dropWhile ?P (rev s) \<noteq> []"
    using assms by (simp add: dropWhile_eq_Nil_conv)
  then have "hd (dropWhile ?P (rev s)) = d"
    using hd_dropWhile [of ?P "rev s"] by simp
  with ne have dw: "dropWhile ?P (rev s) = d # tl (dropWhile ?P (rev s))"
    by (cases "dropWhile ?P (rev s)") auto
  have "rev s = takeWhile ?P (rev s) @ dropWhile ?P (rev s)" by simp
  then have "rev s = takeWhile ?P (rev s) @ d # tl (dropWhile ?P (rev s))"
    using dw by simp
  then have "rev (rev s) = rev (takeWhile ?P (rev s) @ d # tl (dropWhile ?P (rev s)))"
    by (rule arg_cong)
  then show ?thesis by (simp add: rsplit1_def)
qed

lemma rsplit1_ext_no_sep: "d \<notin> set (snd (rsplit1 d s))"
  by (auto simp: rsplit1_def dest: set_takeWhileD)

lemma lower_char_dot: "lower_char c = CHR ''.'' \<longleftrightarrow> c = CHR ''.''"
  by (cases c) (auto simp: lower_char_def Let_def split: if_splits)

lemma takeWhile_lower:
  "takeWhile (\<lambda>c. c \<noteq> CHR ''.'') (map lower_char s) = map lower_char (takeWhile (\<lambda>c. c \<noteq> CHR ''.'') s)"
  by (induction s) (auto simp: lower_char_dot)

lemma file_extension_eq:
  "file_extension s = lower (rev (takeWhile (\<lambda>c. c \<noteq> CHR ''.'') (rev s)))"
  by (simp add: file_extension_def last_split lower_def rev_map takeWhile_lower)

lemma file_extension_append:
  "CHR ''.'' \<notin> set e \<Longrightarrow> file_extension (b @ ''.'' @ e) = lower e"
  by (simp add: file_extension_eq takeWhile_append takeWhile_eq_all_conv[THEN iffD2])

lemmas lower_simps = lower_def lower_char_def

lemma lower_Nil_iff: "lower s = [] \<longleftrightarrow> s = []"
  by (simp add: lower_def)

section \<open>The job history store keeps the field bounds\<close>

lemma history_validate_None: "history_validate h = None \<longleftrightarrow> within_bounds h"
  by (auto simp: history_validate_def within_bounds_def)

lemma history_validate_Some:
  "\<not> within_bounds h \<Longrightarrow> \<exists>m. history_validate h = Some m"
  using history_validate_None [of h] by (cases "history_validate h") auto

lemma history_create_rows:
  assumes "snd (history_create uuid fault h store) i = Some r"
  shows "store i = Some r \<or> within_bounds r"
proof (cases "history_validate h")
  case (Some m)
  with assms show ?thesis by (simp add: history_create_def)
next
  case None
  then have wb: "within_bounds h" by (simp add: history_validate_None)
  then have "within_bounds (h\<lparr>hist_id := x\<rparr>)" for x
    by (simp add: within_bounds_def)
  with assms None show ?thesis
    by (auto simp: history_create_def Let_def split: option.splits if_splits)
qed

lemma history_update_rows:
  assumes "snd (history_update now fault h store) i = Some r"
  shows "store i = Some r \<or> within_bounds r"
proof (cases "history_validate h")
  case (Some m)
  with assms show ?thesis by (simp add: history_update_def)
next
  case None
  then have wb: "within_bounds h" by (simp add: history_validate_None)
  then have "within_bounds (row\<lparr>file_name := file_name h, user_id := user_id h,
                 status := status h, result := result h, updated_at := Some now\<rparr>)" for row :: history
    by (simp add: within_bounds_def)
  with assms None show ?thesis
    by (auto simp: history_update_def split: option.splits if_splits)
qed

text \<open>
  C9. Both \<open>create\<close> and \<open>update\<close> of the job history store validate the record
  before they write: a record that violates a bound (file name, user id and status non-empty
  and at most 100, 36 and 20 characters) is rejected with \<open>ValueError\<close> and the table
  is left as it was, and every row that either operation writes satisfies the bounds.
\<close>

theorem history_store_field_bounds:
  "(\<not> within_bounds h \<longrightarrow>
      (\<exists>m. history_create uuid fault h store = (Inl (ValueError m), store)) \<and>
      (\<exists>m. history_update now fault h store = (Inl (ValueError m), store))) \<and>
   (\<forall>i r. snd (history_create uuid fault h store) i = Some r \<longrightarrow>
      store i = Some r \<or> within_bounds r) \<and>
   (\<forall>i r. snd (history_update now fault h store) i = Some r \<longrightarrow>
      store i = Some r \<or> within_bounds r)"
proof (intro conjI impI allI)
  assume "\<not> within_bounds h"
  then obtain m where "history_validate h = Some m"
    using history_validate_Some by blast
  then show "\<exists>m. history_create uuid fault h store = (Inl (ValueError m), store)"
    and "\<exists>m. history_update now fault h store = (Inl (ValueError m), store)"
    by (simp_all add: history_create_def history_update_def)
next
  fix i r
  assume "snd (history_create uuid fault h store) i = Some r"
  then show "store i = Some r \<or> within_bounds r" by (rule history_create_rows)
next
  fix i r
  assume "snd (history_update now fault h store) i = Some r"
  then show "store i = Some r \<or> within_bounds r" by (rule history_update_rows)
qed

theorem history_store_field_bounds_witness:
  "\<not> within_bounds (example_job\<lparr>user_id := []\<rparr>) \<and>
   (\<exists>m. history_create ''id-1'' None (example_job\<lparr>user_id := []\<rparr>) Map.empty
          = (Inl (ValueError m), Map.empty)) \<and>
   snd (history_create ''id-1'' None example_job Map.empty) ''id-1''
     = Some (example_job\<lparr>hist_id := Some ''id-1''\<rparr>) \<and>
   within_bounds (example_job\<lparr>hist_id := Some ''id-1''\<rparr>)"
proof -
  have bad: "\<not> within_bounds (example_job\<lparr>user_id := []\<rparr>)"
    by (simp add: within_bounds_def)
  have stored: "snd (history_create ''id-1'' None example_job Map.empty) ''id-1''
                  = Some (example_job\<lparr>hist_id := Some ''id-1''\<rparr>)"
    by (simp add: example_job_def history_create_def history_validate_def Let_def)
  have "\<exists>m. history_create ''id-1'' None (example_job\<lparr>user_id := []\<rparr>) Map.empty
              = (Inl (ValueError m), Map.empty)"
    using history_store_field_bounds [of "example_job\<lparr>user_id := []\<rparr>" "''id-1''" None Map.empty 0] bad
    by blast
  moreover have "within_bounds (example_job\<lparr>hist_id := Some ''id-1''\<rparr>)"
    using history_store_field_bounds [of example_job "''id-1''" None Map.empty 0] stored
    by fastforce
  ultimately show ?thesis using bad stored by blast
qed

section \<open>The Import Consumer and the job record\<close>

lemma history_update_Inl:
  "history_update now fault h hs = (Inl e, hs') \<Longrightarrow> hs' = hs"
  by (auto simp: history_update_def split: option.splits)

lemma process_file_content_Inl:
  "process_file_content E bs fname cat = (Inl e, cat') \<Longrightarrow> cat' = cat"
  by (auto simp: process_file_content_def split: sum.splits prod.splits)

lemma process_file_try_Inl:
  assumes "process_file_try C E history_id s = (Inl e, s')"
  shows "histories s' = histories s \<and> blobs s' = blobs s \<and> published s' = published s"
  using assms
  by (auto simp: process_file_try_def Let_def
           split: sum.splits option.splits prod.splits dest: history_update_Inl)

lemma process_file_try_histories:
  assumes "process_file_try C E history_id s = (r, s')"
  shows "histories s' = histories s \<or>
         (\<exists>row msg. histories s history_id = Some row \<and>
            histories s' = (histories s)(history_id \<mapsto>
               row\<lparr>status := ''Finalizado'', result := Some msg,
                    updated_at := Some (update_clock E)\<rparr>))"
  using assms
  by (auto simp: process_file_try_def Let_def history_get_by_id_def history_update_def
                 db_to_model_def
           split: sum.splits option.splits prod.splits)

lemma mark_error_histories:
  "mark_error E history_id e hs = hs \<or>
   (\<exists>row. hs history_id = Some row \<and>
      mark_error E history_id e hs = hs(history_id \<mapsto>
         row\<lparr>status := ''Error'', result := Some (''Error: '' @ str_exn e),
              updated_at := Some (update_clock E)\<rparr>))"
  by (auto simp: mark_error_def history_get_by_id_def history_update_def db_to_model_def
           split: sum.splits option.splits)

lemma evolves_refl: "evolves h h"
  by (simp add: evolves_def)

lemma evolves_trans: "evolves a b \<Longrightarrow> evolves b c \<Longrightarrow> evolves a c"
  by (auto simp: evolves_def)

lemma evolves_finalized:
  "evolves row (row\<lparr>status := ''Finalizado'', result := Some msg, updated_at := Some t\<rparr>)"
  by (simp add: evolves_def)

lemma evolves_error:
  "evolves row (row\<lparr>status := ''Error'', result := Some msg, updated_at := Some t\<rparr>)"
  by (simp add: evolves_def)

lemma process_file_try_evolves:
  assumes "process_file_try C E history_id s = (r, s')" and "histories s k = Some row"
  shows "\<exists>row'. histories s' k = Some row' \<and> evolves row row'"
  using process_file_try_histories [OF assms(1)] assms(2)
  by (auto simp: evolves_refl evolves_finalized)

lemma mark_error_evolves:
  assumes "hs k = Some row"
  shows "\<exists>row'. mark_error E history_id e hs k = Some row' \<and> evolves row row'"
  using mark_error_histories [of E history_id e hs] assms
  by (auto simp: evolves_refl evolves_error)

lemma process_file_by_history_id_evolves:
  assumes "histories s k = Some row"
  shows "\<exists>row'. histories (snd (process_file_by_history_id C E history_id s)) k = Some row'
               \<and> evolves row row'"
proof (cases "process_file_try C E history_id s")
  case (Pair r s')
  from process_file_try_evolves [OF Pair assms]
  obtain row1 where 1: "histories s' k = Some row1" "evolves row row1" by blast
  show ?thesis
  proof (cases r)
    case (Inr x)
    with Pair 1 show ?thesis by (simp add: process_file_by_history_id_def)
  next
    case (Inl e)
    from mark_error_evolves [where hs = "histories s'" and k = k and row = row1, OF 1(1), of E history_id e]
    obtain row2 where "mark_error E history_id e (histories s') k = Some row2" "evolves row1 row2"
      by blast
    with Pair Inl 1 show ?thesis
      by (auto simp: process_file_by_history_id_def intro: evolves_trans)
  qed
qed

lemma history_create_keeps:
  assumes "hs k = Some row"
  shows "snd (history_create uuid fault h hs) k = Some row"
  using assms
  by (auto simp: history_create_def Let_def split: option.splits)

lemma create_history_record_keeps:
  assumes "create_history_record E n uid hs = (r, hs')" and "hs k = Some row"
  shows "hs' k = Some row"
proof -
  have "hs' = snd (history_create (history_uuid E) (create_fault E)
               \<lparr>hist_id = None, file_name = n, user_id = uid, status = ''En curso'',
                result = None, created_at = submit_clock E, updated_at = None\<rparr> hs)"
    using assms(1) by (auto simp: create_history_record_def split: prod.splits sum.splits)
  then show ?thesis using assms(2) by (simp add: history_create_keeps)
qed

lemma import_products_file_try_keeps:
  assumes "histories s k = Some row"
  shows "histories (snd (import_products_file_try C E f uid s)) k = Some row"
  using assms
  by (auto simp: import_products_file_try_def Let_def
           split: option.splits prod.splits sum.splits
           dest: create_history_record_keeps)

lemma import_products_file_histories:
  "histories (snd (import_products_file C E f uid s))
     = histories (snd (import_products_file_try C E f uid s))"
  by (auto simp: import_products_file_def split: prod.splits sum.splits exn.splits)

lemma import_products_file_keeps:
  assumes "histories s k = Some row"
  shows "histories (snd (import_products_file C E f uid s)) k = Some row"
  using import_products_file_try_keeps [OF assms]
  by (simp add: import_products_file_histories)

lemma invoke_evolves:
  assumes "histories s k = Some row"
  shows "\<exists>row'. histories (invoke C i s) k = Some row' \<and> evolves row row'"
proof (cases i)
  case (Submit E f uid)
  then show ?thesis
    using import_products_file_keeps [OF assms] by (simp add: evolves_refl)
next
  case (Consume E history_id)
  then show ?thesis
    using process_file_by_history_id_evolves [OF assms] by simp
qed

lemma run_evolves:
  assumes "histories s k = Some row"
  shows "\<exists>row'. histories (run C ops s) k = Some row' \<and> evolves row row'"
  using assms
proof (induction ops arbitrary: s row)
  case Nil
  then show ?case by (simp add: evolves_refl)
next
  case (Cons i ops)
  from invoke_evolves [OF Cons.prems, of C i]
  obtain row1 where 1: "histories (invoke C i s) k = Some row1" "evolves row row1" by blast
  from Cons.IH [OF 1(1)]
  obtain row2 where "histories (run C ops (invoke C i s)) k = Some row2" "evolves row1 row2"
    by blast
  with 1 show ?case by (auto intro: evolves_trans)
qed

lemma process_file_try_absent:
  assumes "histories s history_id = None"
  shows "\<exists>e. process_file_try C E history_id s = (Inl e, s)"
  using assms
  by (auto simp: process_file_try_def history_get_by_id_def split: option.splits)

lemma mark_error_absent:
  "hs history_id = None \<Longrightarrow> mark_error E history_id e hs = hs"
  by (auto simp: mark_error_def history_get_by_id_def split: option.splits)

lemmas consumer_simps = process_file_by_history_id_def process_file_try_def
  history_get_by_id_def download_file_def mark_error_def history_update_def
  history_validate_def db_to_model_def Let_def
lemmas example_simps = example_config_def example_env_def example_lib_def empty_system_def
  example_key_def stored_job_def system_without_file_def system_with_file_def
  finalized_job_def system_finalized_def example_decode_def not_found_msg_def


text \<open>
  C3. When the job lookup has succeeded and an exception \<open>e\<close> leaves the body of the
  consumer (the download, the parse or the finalizing update), the consumer raises
  \<open>Error al procesar archivo: e\<close>; it fetches the job again and writes status
  \<open>Error\<close> with the summary \<open>Error: e\<close>, unless that fetch or that update raises:
  then the failure is swallowed and the job history store is as it was.
\<close>

theorem failure_marks_job_failed:
  assumes "histories s history_id = Some h"
    and "lookup_fault E = None"
    and "process_file_try C E history_id s = (Inl e, s1)"
  shows "fst (process_file_by_history_id C E history_id s)
           = Inl (Exception (''Error al procesar archivo: '' @ str_exn e)) \<and>
         histories (snd (process_file_by_history_id C E history_id s)) =
           (if isl (history_get_by_id (recovery_lookup_fault E) history_id (histories s)) \<or>
               isl (fst (history_update (update_clock E) (recovery_update_fault E)
                          ((db_to_model history_id h)
                             \<lparr>status := ''Error'', result := Some (''Error: '' @ str_exn e),
                              updated_at := Some (update_clock E)\<rparr>) (histories s)))
            then histories s
            else (histories s)(history_id \<mapsto>
                    h\<lparr>status := ''Error'', result := Some (''Error: '' @ str_exn e),
                      updated_at := Some (update_clock E)\<rparr>))"
proof -
  have hs: "histories s1 = histories s"
    using process_file_try_Inl [OF assms(3)] by simp
  have m: "mark_error E history_id e (histories s) =
           (if isl (history_get_by_id (recovery_lookup_fault E) history_id (histories s)) \<or>
               isl (fst (history_update (update_clock E) (recovery_update_fault E)
                          ((db_to_model history_id h)
                             \<lparr>status := ''Error'', result := Some (''Error: '' @ str_exn e),
                              updated_at := Some (update_clock E)\<rparr>) (histories s)))
            then histories s
            else (histories s)(history_id \<mapsto>
                    h\<lparr>status := ''Error'', result := Some (''Error: '' @ str_exn e),
                      updated_at := Some (update_clock E)\<rparr>))"
    using assms(1)
    by (auto simp: mark_error_def history_get_by_id_def history_update_def db_to_model_def
             split: option.splits)
  show ?thesis
    using assms(3) hs m by (simp add: process_file_by_history_id_def)
qed


theorem failure_marks_job_failed_witness:
  "histories system_without_file ''job-1'' = Some stored_job \<and>
   process_file_try example_config (example_env []) ''job-1'' system_without_file
     = (Inl (GoogleCloudError (''None El archivo processed_products/'' @ example_key
                               @ '' no existe en el bucket'')), system_without_file) \<and>
   histories (snd (process_file_by_history_id example_config (example_env []) ''job-1''
                     system_without_file)) ''job-1''
     = Some (stored_job\<lparr>status := ''Error'',
               result := Some (''Error: None El archivo processed_products/'' @ example_key
                               @ '' no existe en el bucket''),
               updated_at := Some 1762387200\<rparr>) \<and>
   histories (snd (process_file_by_history_id example_config
                     ((example_env [])\<lparr>recovery_lookup_fault := Some ''connection lost''\<rparr>)
                     ''job-1'' system_without_file)) ''job-1''
     = Some stored_job"
proof -
  let ?e = "GoogleCloudError (''None El archivo processed_products/'' @ example_key
                               @ '' no existe en el bucket'')"
  let ?E2 = "(example_env [])\<lparr>recovery_lookup_fault := Some ''connection lost''\<rparr>"
  have a: "histories system_without_file ''job-1'' = Some stored_job"
    by (simp add: system_without_file_def empty_system_def)
  have b: "lookup_fault (example_env []) = None" "lookup_fault ?E2 = None"
    by (simp_all add: example_env_def)
  have c: "process_file_try example_config (example_env []) ''job-1'' system_without_file
             = (Inl ?e, system_without_file)"
    by (simp add: consumer_simps example_simps)
  have c2: "process_file_try example_config ?E2 ''job-1'' system_without_file
             = (Inl ?e, system_without_file)"
    by (simp add: consumer_simps example_simps)
  have 1: "histories (snd (process_file_by_history_id example_config (example_env []) ''job-1''
                     system_without_file)) ''job-1''
     = Some (stored_job\<lparr>status := ''Error'',
               result := Some (''Error: None El archivo processed_products/'' @ example_key
                               @ '' no existe en el bucket''),
               updated_at := Some 1762387200\<rparr>)"
    using failure_marks_job_failed [OF a b(1) c]
    by (simp add: consumer_simps example_simps)
  have 2: "histories (snd (process_file_by_history_id example_config ?E2
                     ''job-1'' system_without_file)) ''job-1'' = Some stored_job"
    using failure_marks_job_failed [OF a b(2) c2] a
    by (simp add: history_get_by_id_def example_env_def)
  show ?thesis using a c 1 2 by simp
qed


text \<open>
  C8. Invoking the consumer with a job id that has no record changes nothing: the job
  history store, the catalog store and the other stores are exactly as before, whatever
  fails outside.
\<close>

theorem absent_job_changes_nothing:
  assumes "histories s history_id = None"
  shows "snd (process_file_by_history_id C E history_id s) = s \<and>
         isl (fst (process_file_by_history_id C E history_id s))"
proof -
  obtain e where "process_file_try C E history_id s = (Inl e, s)"
    using process_file_try_absent [OF assms] by blast
  then show ?thesis
    using assms by (simp add: process_file_by_history_id_def mark_error_absent)
qed


theorem absent_job_changes_nothing_witness:
  "histories empty_system ''job-404'' = None \<and>
   snd (process_file_by_history_id example_config (example_env []) ''job-404'' empty_system)
     = empty_system"
proof -
  have "histories empty_system ''job-404'' = None" by (simp add: empty_system_def)
  then show ?thesis
    using absent_job_changes_nothing [of empty_system "''job-404''" example_config "example_env []"]
    by simp
qed


text \<open>
  C6 (as amended). When the lookup finds no job for the delivered id, no store changes,
  but the absence is not silent: the service raises an \<open>Exception\<close> that names the id,
  and the controller answers the delivery with status 500 and that message.
\<close>

theorem absent_job_is_reported:
  assumes "histories s history_id = None" and "lookup_fault E = None" and "history_id \<noteq> []"
    and "decode d = Inr (Some history_id)"
  shows "process_file_by_history_id C E history_id s
           = (Inl (Exception (''Error al procesar archivo: '' @ not_found_msg history_id)), s) \<and>
         process_products_file C E decode (Some \<lparr>message = Some \<lparr>data = Some d\<rparr>\<rparr>) s
           = (json_failure 500 (''Error al procesar archivo: Error al procesar archivo: ''
                                   @ not_found_msg history_id), s)"
proof -
  have t: "process_file_try C E history_id s = (Inl (Exception (not_found_msg history_id)), s)"
    using assms by (simp add: process_file_try_def history_get_by_id_def not_found_msg_def)
  have 1: "process_file_by_history_id C E history_id s
           = (Inl (Exception (''Error al procesar archivo: '' @ not_found_msg history_id)), s)"
    using assms t by (simp add: process_file_by_history_id_def mark_error_absent)
  then show ?thesis
    using assms by (simp add: process_products_file_def)
qed

theorem absent_job_is_reported_witness:
  "histories empty_system ''job-404'' = None \<and> lookup_fault (example_env []) = None \<and>
   example_decode example_data = Inr (Some ''job-404'') \<and>
   code (fst (process_products_file example_config (example_env []) example_decode
                (Some \<lparr>message = Some \<lparr>data = Some example_data\<rparr>\<rparr>) empty_system)) = 500"
proof -
  have a: "histories empty_system ''job-404'' = None" by (simp add: empty_system_def)
  have b: "lookup_fault (example_env []) = None" by (simp add: example_env_def)
  have c: "example_decode example_data = Inr (Some ''job-404'')" by (simp add: example_decode_def)
  have d: "''job-404'' \<noteq> []" by simp
  show ?thesis
    using absent_job_is_reported [where decode = example_decode and d = example_data and C = example_config, OF a b d c] a b c
    by (simp add: json_failure_def)
qed


text \<open>
  C6 as stated fails: for a delivered id without a job the service propagates an
  exception and the delivery gets the error response 500.
\<close>

theorem absent_job_error_response_counterexample:
  "histories empty_system ''job-404'' = None \<and>
   fst (process_file_by_history_id example_config (example_env []) ''job-404'' empty_system)
     = Inl (Exception (''Error al procesar archivo: No se encontr'' @ [CHR 0xF3]
                       @ '' registro de historial con ID: job-404'')) \<and>
   fst (process_products_file example_config (example_env []) example_decode
          (Some \<lparr>message = Some \<lparr>data = Some example_data\<rparr>\<rparr>) empty_system)
     = \<lparr>code = 500, success = False,
        resp_message = ''Error al procesar archivo: Error al procesar archivo: No se encontr''
                       @ [CHR 0xF3] @ '' registro de historial con ID: job-404'',
        resp_data = None\<rparr>"
  by (simp add: process_products_file_def json_failure_def consumer_simps example_simps)


text \<open>
  C2 (as amended). Over every sequence of submissions and consumer invocations a job
  record is never deleted, its id, file key, submitter and creation time never change,
  and whenever it changes it gets status \<open>Finalizado\<close> or \<open>Error\<close> with a summary;
  so a job that has left \<open>En curso\<close> never returns to it and a summary, once set, is
  never cleared.
\<close>

theorem job_never_reopened:
  assumes "histories s k = Some h"
  shows "\<exists>h'. histories (run C ops s) k = Some h' \<and> evolves h h' \<and>
              (status h \<noteq> ''En curso'' \<longrightarrow> status h' \<noteq> ''En curso'') \<and>
              (result h \<noteq> None \<longrightarrow> result h' \<noteq> None)"
proof -
  from run_evolves [OF assms, of C ops]
  obtain h' where "histories (run C ops s) k = Some h'" "evolves h h'" by blast
  then show ?thesis by (auto simp: evolves_def)
qed

theorem job_never_reopened_witness:
  "histories system_finalized ''job-1'' = Some finalized_job \<and>
   status finalized_job \<noteq> ''En curso'' \<and>
   (\<exists>h'. histories (run example_config [Consume (example_env []) ''job-1''] system_finalized)
            ''job-1'' = Some h' \<and> status h' \<noteq> ''En curso'' \<and> result h' \<noteq> None)"
proof -
  have a: "histories system_finalized ''job-1'' = Some finalized_job"
    by (simp add: system_finalized_def empty_system_def)
  have b: "status finalized_job \<noteq> ''En curso''" "result finalized_job \<noteq> None"
    by (simp_all add: finalized_job_def)
  show ?thesis
    using job_never_reopened [OF a, of example_config "[Consume (example_env []) ''job-1'']"] a b
    by blast
qed


text \<open>
  C2 as stated fails: the consumer does not look at the status, so an invocation on a
  job that is already \<open>Finalizado\<close> whose file cannot be downloaded moves it to
  \<open>Error\<close> and overwrites the summary.
\<close>

theorem finalized_job_rewritten_counterexample:
  "map_option status (histories system_finalized ''job-1'') = Some ''Finalizado'' \<and>
   map_option result (histories system_finalized ''job-1'')
     = Some (Some ''1/2 productos registrados'') \<and>
   map_option status
     (histories (snd (process_file_by_history_id example_config (example_env []) ''job-1''
                        system_finalized)) ''job-1'') = Some ''Error'' \<and>
   map_option result
     (histories (snd (process_file_by_history_id example_config (example_env []) ''job-1''
                        system_finalized)) ''job-1'')
     = Some (Some (''Error: None El archivo processed_products/'' @ example_key
                   @ '' no existe en el bucket''))"
  by (simp add: consumer_simps example_simps)

section \<open>The Import Submission Handler\<close>

lemma validate_required_fields_cases:
  "validate_required_fields fl uid = None \<or>
   (\<exists>m. validate_required_fields fl uid = Some (ValidationError m))"
  by (simp add: validate_required_fields_def)

lemma validate_file_type_cases:
  "validate_file_type n = None \<or> (\<exists>m. validate_file_type n = Some (ValidationError m))"
  by (simp add: validate_file_type_def)

lemma validate_records_count_cases:
  "validate_records_count C L n bs = None \<or>
   (\<exists>m. validate_records_count C L n bs = Some (ValidationError m))"
  by (auto simp: validate_records_count_def split: sum.splits exn.splits)

lemma validate_records_count_over:
  assumes "eager_parse L n bs = Inr rows" and "int (length rows) > MAX_IMPORT_PRODUCTS C"
  shows "validate_records_count C L n bs = Some (ValidationError (row_cap_msg C (length rows)))"
  using assms by (simp add: validate_records_count_def row_cap_msg_def)

lemma import_products_file_ValidationError:
  "import_products_file_try C E fl uid s = (Inl (ValidationError m), s')
   \<Longrightarrow> import_products_file C E fl uid s = (Inl (ValidationError m), s')"
  by (simp add: import_products_file_def)

lemma upload_file_to_storage_cases:
  "(\<exists>m. upload_fault_v = Some m \<and>
        upload_file_to_storage C upload_fault_v original bs key store
          = (Some (BusinessLogicError (''Error al subir archivo a Cloud Storage: '' @ m)), store)) \<or>
   (upload_fault_v = None \<and>
    upload_file_to_storage C upload_fault_v original bs key store
      = (None, store(BUCKET_FOLDER_PROCESSED_PRODUCTS C @ ''/'' @ key
                       \<mapsto> uploaded_blob C original bs)))"
  by (cases upload_fault_v) (simp_all add: upload_file_to_storage_def uploaded_blob_def)

lemma publish_import_event_cases:
  "(\<exists>m. publish_fault E \<noteq> None \<and>
        publish_import_event E i evs
          = (Some (BusinessLogicError (''Error al publicar evento de importaci'' @ [CHR 0xF3]
                                       @ ''n: '' @ m)), evs)) \<or>
   (publish_fault E = None \<and>
    publish_import_event E i evs
      = (None, evs @ [\<lparr>ev_history_id = i, event_type = ''product_import'',
                        timestamp = submit_clock E\<rparr>]))"
  by (auto simp: publish_import_event_def publish_product_import_event_def
           split: option.splits exn.splits)

lemma import_try_rejected:
  assumes "\<not> import_passes C E fl uid"
  shows "\<exists>m. import_products_file_try C E fl uid s = (Inl (ValidationError m), s)"
proof (cases fl)
  case None
  then show ?thesis
    by (simp add: import_products_file_try_def validate_required_fields_def named_def)
next
  case (Some f)
  show ?thesis
  proof (cases "filename f")
    case None
    with Some show ?thesis
      by (simp add: import_products_file_try_def validate_required_fields_def named_def)
  next
    case (Some n)
    with \<open>fl = Some f\<close> assms show ?thesis
      using validate_required_fields_cases [of fl uid] validate_file_type_cases [of n]
        validate_records_count_cases [of C "sub_lib E" n "stream f"]
      by (auto simp: import_products_file_try_def import_passes_def)
  qed
qed


lemma import_products_file_BusinessLogicError:
  "import_products_file_try C E fl uid s = (Inl (BusinessLogicError m), s')
   \<Longrightarrow> import_products_file C E fl uid s = (Inl (BusinessLogicError m), s')"
  by (simp add: import_products_file_def)

lemma import_products_file_Inr:
  "import_products_file_try C E fl uid s = (Inr x, s')
   \<Longrightarrow> import_products_file C E fl uid s = (Inr x, s')"
  by (simp add: import_products_file_def)

lemma create_history_record_succeeds:
  assumes "insert_succeeds E (new_job E n uid) hs"
  shows "create_history_record E (generate_new_filename n (file_uuid E)) uid hs
           = (Inr (new_job E n uid), hs(history_uuid E \<mapsto> new_job E n uid))"
  using assms
  by (auto simp: insert_succeeds_def new_job_def create_history_record_def history_create_def
        history_validate_def Let_def split: if_splits)

lemma create_history_record_fails:
  assumes "\<not> insert_succeeds E (new_job E n uid) hs"
  shows "\<exists>m. create_history_record E (generate_new_filename n (file_uuid E)) uid hs
           = (Inl (BusinessLogicError m), hs)"
  using assms
  by (auto simp: insert_succeeds_def new_job_def create_history_record_def history_create_def
        history_validate_def Let_def split: if_splits option.splits)

lemmas submit_simps = import_products_file_def import_products_file_try_def
  validate_required_fields_def named_def validate_file_type_def validate_records_count_def
  eager_parse_def file_extension_def lower_simps strip_def isspace_def
  generate_new_filename_def rsplit1_def upload_file_to_storage_def create_history_record_def
  history_create_def history_validate_def publish_import_event_def
  publish_product_import_event_def Let_def
lemmas example_simps2 = example_config_def example_submit_def example_lib_def empty_system_def
  example_uuid_def example_key_def stored_job_def

lemma big_parse:
  "eager_parse (sub_lib (example_submit big_files)) ''products.csv'' (stream big_upload)
     = Inr (replicate 101 row_valid)"
  by (simp add: eager_parse_def file_extension_def lower_simps example_submit_def example_lib_def
        big_files_def big_upload_def)

lemma small_success:
  "import_products_file example_config (example_submit small_files) (Some small_upload)
      ''user-123'' empty_system
     = (Inr (Some ''job-1'', ''Archivo cargado exitosamente''),
        system_with_file\<lparr>published := [example_event]\<rparr>)"
  by (simp add: submit_simps example_simps2 small_files_def small_upload_def
        system_with_file_def system_without_file_def example_event_def)

lemma small_publish_failure:
  "import_products_file example_config
      ((example_submit small_files)\<lparr>publish_fault := Some (GoogleCloudError ''504 Deadline Exceeded'')\<rparr>)
      (Some small_upload) ''user-123'' empty_system
     = (Inl (BusinessLogicError
               (publish_failed_msg ''None Error al publicar mensaje en Pub/Sub: 504 Deadline Exceeded'')),
        system_with_file)"
  by (simp add: submit_simps example_simps2 small_files_def small_upload_def
        system_with_file_def system_without_file_def publish_failed_msg_def)

lemma small_insert_failure:
  "import_products_file example_config (example_submit small_files) (Some small_upload)
      ''user-123'' system_without_file
     = (Inl (BusinessLogicError
               (''Error al crear registro de historial: Error al crear registro de historial: ''
                @ duplicate_key_msg)),
        system_with_file)"
  by (simp add: submit_simps example_simps2 small_files_def small_upload_def
        system_with_file_def system_without_file_def)

lemma small_upload_failure:
  "import_products_file example_config
      ((example_submit small_files)\<lparr>upload_fault := Some ''503 Service Unavailable''\<rparr>)
      (Some small_upload) ''user-123'' empty_system
     = (Inl (BusinessLogicError
               ''Error al subir archivo a Cloud Storage: 503 Service Unavailable''),
        empty_system)"
  by (simp add: submit_simps example_simps2 small_files_def small_upload_def)

lemma trailing_dot_rejected:
  "import_products_file example_config (example_submit small_files)
      (Some (small_upload\<lparr>filename := Some ''products.''\<rparr>)) ''user-123'' empty_system
     = (Inl (ValidationError ''Solo se permiten archivos CSV/Excel''), empty_system)"
  by (simp add: submit_simps small_upload_def)

lemma small_passes:
  assumes "sub_lib E = example_lib small_files"
  shows "import_passes example_config E (Some small_upload) ''user-123''"
  unfolding import_passes_def
  by (intro exI [of _ small_upload] exI [of _ "''products.csv''"])
     (simp add: assms validate_required_fields_def named_def validate_file_type_def
        validate_records_count_def eager_parse_def file_extension_def lower_simps strip_def
        isspace_def example_lib_def small_files_def small_upload_def example_config_def)

lemma unvalidated_name_fails:
  assumes "filename f = Some n" and "validate_file_type n \<noteq> None"
  shows "\<not> import_passes C E (Some f) uid"
  using assms by (auto simp: import_passes_def)

lemma small_new_job:
  assumes "history_uuid E = ''job-1''" and "file_uuid E = example_uuid"
    and "submit_clock E = 1762300800"
  shows "new_job E ''products.csv'' ''user-123'' = stored_job"
  using assms
  by (simp add: new_job_def stored_job_def example_key_def example_uuid_def
        generate_new_filename_def rsplit1_def)

lemma small_insert_succeeds:
  assumes "history_uuid E = ''job-1''" and "file_uuid E = example_uuid"
    and "submit_clock E = 1762300800" and "create_fault E = None"
  shows "insert_succeeds E (new_job E ''products.csv'' ''user-123'') (histories empty_system)"
  using assms
  by (simp add: insert_succeeds_def small_new_job stored_job_def example_key_def
        history_validate_def empty_system_def)

text \<open>
  C4 (as amended). A submission whose file parses to more data rows than the configured
  maximum is always rejected with a \<open>ValidationError\<close> and the stores are left exactly
  as they were (no blob, no job record, no event); when the required fields and the file
  type are valid, the error reports both the limit and the actual count.
\<close>

theorem row_cap_rejects_before_any_write:
  assumes "filename f = Some n"
    and "eager_parse (sub_lib E) n (stream f) = Inr rows"
    and "int (length rows) > MAX_IMPORT_PRODUCTS C"
  shows "(\<exists>m. import_products_file C E (Some f) uid s = (Inl (ValidationError m), s)) \<and>
         (validate_required_fields (Some f) uid = None \<and> validate_file_type n = None \<longrightarrow>
            import_products_file C E (Some f) uid s
              = (Inl (ValidationError (row_cap_msg C (length rows))), s))"
proof -
  note vrc = validate_records_count_over [OF assms(2,3)]
  have "\<exists>m. import_products_file_try C E (Some f) uid s = (Inl (ValidationError m), s)"
    using validate_required_fields_cases [of "Some f" uid] validate_file_type_cases [of n]
      assms(1) vrc
    by (auto simp: import_products_file_try_def)
  moreover have "import_products_file_try C E (Some f) uid s
              = (Inl (ValidationError (row_cap_msg C (length rows))), s)"
    if "validate_required_fields (Some f) uid = None" "validate_file_type n = None"
    using that assms(1) vrc by (simp add: import_products_file_try_def)
  ultimately show ?thesis
    by (auto dest: import_products_file_ValidationError)
qed


theorem row_cap_rejects_before_any_write_witness:
  "filename big_upload = Some ''products.csv'' \<and>
   eager_parse (sub_lib (example_submit big_files)) ''products.csv'' (stream big_upload)
     = Inr (replicate 101 row_valid) \<and>
   int (length (replicate 101 row_valid)) > MAX_IMPORT_PRODUCTS example_config \<and>
   import_products_file example_config (example_submit big_files) (Some big_upload) ''user-123''
      empty_system
     = (Inl (ValidationError
          ''Solo se permiten cargar 100 productos. El archivo contiene 101 registros''),
        empty_system)"
proof -
  have a: "filename big_upload = Some ''products.csv''" by (simp add: big_upload_def)
  have c: "int (length (replicate 101 row_valid)) > MAX_IMPORT_PRODUCTS example_config"
    by (simp add: example_config_def)
  have d: "validate_required_fields (Some big_upload) ''user-123'' = None"
    by (simp add: validate_required_fields_def named_def big_upload_def strip_def isspace_def)
  have e: "validate_file_type ''products.csv'' = None"
    by (simp add: validate_file_type_def file_extension_def lower_simps)
  have f: "row_cap_msg example_config 101
             = ''Solo se permiten cargar 100 productos. El archivo contiene 101 registros''"
    by (simp add: row_cap_msg_def example_config_def show_int_def show_nat.simps)
  show ?thesis
    using row_cap_rejects_before_any_write [OF a big_parse c, of "''user-123''" empty_system]
      a big_parse c d e f
    by simp
qed

text \<open>
  C4 as stated fails: with a submitter id of one space, the file of 101 rows is rejected
  for the missing \<open>userId\<close>, and the error reports neither the limit nor the count.
\<close>

theorem blank_submitter_over_cap_counterexample:
  "eager_parse (sub_lib (example_submit big_files)) ''products.csv'' (stream big_upload)
     = Inr (replicate 101 row_valid) \<and>
   int (length (replicate 101 row_valid)) > MAX_IMPORT_PRODUCTS example_config \<and>
   import_products_file example_config (example_submit big_files) (Some big_upload) '' ''
      empty_system
     = (Inl (ValidationError ''El userId es obligatorio''), empty_system)"
proof -
  have "import_products_file example_config (example_submit big_files) (Some big_upload) '' ''
      empty_system
     = (Inl (ValidationError ''El userId es obligatorio''), empty_system)"
    by (simp add: import_products_file_def import_products_file_try_def
          validate_required_fields_def named_def big_upload_def strip_def isspace_def)
  then show ?thesis
    using big_parse by (simp add: example_config_def)
qed

text \<open>
  C5. The effects of a submission come in the order validate, upload, create job
  record, publish event, and a step that fails leaves the effects of the steps before it
  and none of the later ones. A submission that fails a validation raises
  \<open>ValidationError\<close> and changes no store. When the validations pass: if the upload
  fails, the handler raises \<open>BusinessLogicError\<close> and no store is changed; if the
  insert of the job record fails, it raises \<open>BusinessLogicError\<close> and only the blob
  has been stored; if the publisher fails after the job record was inserted, it raises
  \<open>BusinessLogicError\<close>, no event is published, and the blob and the job record stay
  in their stores, the record with status \<open>En curso\<close> (it is not rolled back); if
  nothing fails, the blob, the job record and the event are there and the id of the job
  is returned.
\<close>

theorem submission_effects_in_order:
  "(\<not> import_passes C E fl uid \<longrightarrow>
      (\<exists>m. import_products_file C E fl uid s = (Inl (ValidationError m), s))) \<and>
   (import_passes C E fl uid \<and> fl = Some f \<and> filename f = Some n \<longrightarrow>
      (upload_fault E \<noteq> None \<longrightarrow>
         (\<exists>m. import_products_file C E fl uid s = (Inl (BusinessLogicError m), s))) \<and>
      (upload_fault E = None \<and> \<not> insert_succeeds E (new_job E n uid) (histories s) \<longrightarrow>
         (\<exists>m. import_products_file C E fl uid s
                = (Inl (BusinessLogicError m),
                   s\<lparr>blobs := (blobs s)(storage_path C E n \<mapsto> uploaded_blob C n (stream f))\<rparr>))) \<and>
      (upload_fault E = None \<and> insert_succeeds E (new_job E n uid) (histories s) \<and>
       publish_fault E \<noteq> None \<longrightarrow>
         (\<exists>m. import_products_file C E fl uid s
                = (Inl (BusinessLogicError (publish_failed_msg m)),
                   s\<lparr>blobs := (blobs s)(storage_path C E n \<mapsto> uploaded_blob C n (stream f)),
                     histories := (histories s)(history_uuid E \<mapsto> new_job E n uid)\<rparr>))) \<and>
      (upload_fault E = None \<and> insert_succeeds E (new_job E n uid) (histories s) \<and>
       publish_fault E = None \<longrightarrow>
         import_products_file C E fl uid s
           = (Inr (Some (history_uuid E), ''Archivo cargado exitosamente''),
              s\<lparr>blobs := (blobs s)(storage_path C E n \<mapsto> uploaded_blob C n (stream f)),
                histories := (histories s)(history_uuid E \<mapsto> new_job E n uid),
                published := published s @ [import_event E]\<rparr>)))"
proof (intro conjI impI)
  assume "\<not> import_passes C E fl uid"
  then obtain m where "import_products_file_try C E fl uid s = (Inl (ValidationError m), s)"
    using import_try_rejected by blast
  then have "import_products_file C E fl uid s = (Inl (ValidationError m), s)"
    by (rule import_products_file_ValidationError)
  then show "\<exists>m. import_products_file C E fl uid s = (Inl (ValidationError m), s)" ..
next
  let ?key = "generate_new_filename n (file_uuid E)"
  let ?s1 = "s\<lparr>blobs := (blobs s)(storage_path C E n \<mapsto> uploaded_blob C n (stream f))\<rparr>"
  assume a: "import_passes C E fl uid \<and> fl = Some f \<and> filename f = Some n"
  then have try_eq: "import_products_file_try C E fl uid s =
     (case upload_file_to_storage C (upload_fault E) n (stream f) ?key (blobs s) of
        (Some e, bs') \<Rightarrow> (Inl e, s\<lparr>blobs := bs'\<rparr>)
      | (None, bs') \<Rightarrow>
     (case create_history_record E ?key uid (histories s) of
        (Inl e, hs') \<Rightarrow> (Inl e, s\<lparr>blobs := bs', histories := hs'\<rparr>)
      | (Inr h, hs') \<Rightarrow>
     (case publish_import_event E (hist_id h) (published s) of
        (Some e, evs') \<Rightarrow> (Inl e, s\<lparr>blobs := bs', histories := hs', published := evs'\<rparr>)
      | (None, evs') \<Rightarrow>
          (Inr (hist_id h, ''Archivo cargado exitosamente''),
           s\<lparr>blobs := bs', histories := hs', published := evs'\<rparr>))))"
    by (auto simp: import_passes_def import_products_file_try_def Let_def)
  note up = upload_file_to_storage_cases [of "upload_fault E" C n "stream f" ?key "blobs s"]
  note pb = publish_import_event_cases [of E "Some (history_uuid E)" "published s"]
  {
    assume "upload_fault E \<noteq> None"
    with up obtain m where
      "import_products_file_try C E fl uid s = (Inl (BusinessLogicError m), s)"
      using try_eq by auto
    then have "import_products_file C E fl uid s = (Inl (BusinessLogicError m), s)"
      by (rule import_products_file_BusinessLogicError)
    then show "\<exists>m. import_products_file C E fl uid s = (Inl (BusinessLogicError m), s)" ..
  }
  {
    assume "upload_fault E = None \<and> \<not> insert_succeeds E (new_job E n uid) (histories s)"
    then have u: "upload_file_to_storage C (upload_fault E) n (stream f) ?key (blobs s)
          = (None, (blobs s)(storage_path C E n \<mapsto> uploaded_blob C n (stream f)))"
      and "\<not> insert_succeeds E (new_job E n uid) (histories s)"
      using up by (auto simp: storage_path_def)
    then obtain m where
      "create_history_record E ?key uid (histories s) = (Inl (BusinessLogicError m), histories s)"
      using create_history_record_fails by blast
    with u have "import_products_file_try C E fl uid s = (Inl (BusinessLogicError m), ?s1)"
      using try_eq by simp
    then have "import_products_file C E fl uid s = (Inl (BusinessLogicError m), ?s1)"
      by (rule import_products_file_BusinessLogicError)
    then show "\<exists>m. import_products_file C E fl uid s = (Inl (BusinessLogicError m), ?s1)" ..
  }
  {
    assume "upload_fault E = None \<and> insert_succeeds E (new_job E n uid) (histories s) \<and>
            publish_fault E \<noteq> None"
    then have u: "upload_file_to_storage C (upload_fault E) n (stream f) ?key (blobs s)
          = (None, (blobs s)(storage_path C E n \<mapsto> uploaded_blob C n (stream f)))"
      and c: "create_history_record E ?key uid (histories s)
          = (Inr (new_job E n uid), (histories s)(history_uuid E \<mapsto> new_job E n uid))"
      and "publish_fault E \<noteq> None"
      using up create_history_record_succeeds by (auto simp: storage_path_def)
    with pb obtain m where p: "publish_import_event E (Some (history_uuid E)) (published s)
          = (Some (BusinessLogicError (publish_failed_msg m)), published s)"
      by (auto simp: publish_failed_msg_def)
    have "import_products_file_try C E fl uid s
           = (Inl (BusinessLogicError (publish_failed_msg m)),
              ?s1\<lparr>histories := (histories s)(history_uuid E \<mapsto> new_job E n uid)\<rparr>)"
      using try_eq u c p by (simp add: new_job_def)
    then have "import_products_file C E fl uid s
           = (Inl (BusinessLogicError (publish_failed_msg m)),
              ?s1\<lparr>histories := (histories s)(history_uuid E \<mapsto> new_job E n uid)\<rparr>)"
      by (rule import_products_file_BusinessLogicError)
    then show "\<exists>m. import_products_file C E fl uid s
           = (Inl (BusinessLogicError (publish_failed_msg m)),
              ?s1\<lparr>histories := (histories s)(history_uuid E \<mapsto> new_job E n uid)\<rparr>)" ..
  }
  {
    assume "upload_fault E = None \<and> insert_succeeds E (new_job E n uid) (histories s) \<and>
            publish_fault E = None"
    then have u: "upload_file_to_storage C (upload_fault E) n (stream f) ?key (blobs s)
          = (None, (blobs s)(storage_path C E n \<mapsto> uploaded_blob C n (stream f)))"
      and c: "create_history_record E ?key uid (histories s)
          = (Inr (new_job E n uid), (histories s)(history_uuid E \<mapsto> new_job E n uid))"
      and "publish_fault E = None"
      using up create_history_record_succeeds by (auto simp: storage_path_def)
    with pb have p: "publish_import_event E (Some (history_uuid E)) (published s)
          = (None, published s @ [import_event E])"
      by (auto simp: import_event_def)
    have "import_products_file_try C E fl uid s
           = (Inr (Some (history_uuid E), ''Archivo cargado exitosamente''),
              ?s1\<lparr>histories := (histories s)(history_uuid E \<mapsto> new_job E n uid),
                   published := published s @ [import_event E]\<rparr>)"
      using try_eq u c p by (simp add: new_job_def)
    then show "import_products_file C E fl uid s
           = (Inr (Some (history_uuid E), ''Archivo cargado exitosamente''),
              ?s1\<lparr>histories := (histories s)(history_uuid E \<mapsto> new_job E n uid),
                   published := published s @ [import_event E]\<rparr>)"
      by (rule import_products_file_Inr)
  }
qed

theorem submission_effects_in_order_witness:
  "import_passes example_config
      ((example_submit small_files)\<lparr>publish_fault := Some (GoogleCloudError ''504 Deadline Exceeded'')\<rparr>)
      (Some small_upload) ''user-123'' \<and>
   filename small_upload = Some ''products.csv'' \<and>
   upload_fault ((example_submit small_files)\<lparr>publish_fault := Some (GoogleCloudError ''504 Deadline Exceeded'')\<rparr>) = None \<and>
   insert_succeeds
      ((example_submit small_files)\<lparr>publish_fault := Some (GoogleCloudError ''504 Deadline Exceeded'')\<rparr>)
      (new_job ((example_submit small_files)\<lparr>publish_fault := Some (GoogleCloudError ''504 Deadline Exceeded'')\<rparr>)
         ''products.csv'' ''user-123'')
      (histories empty_system) \<and>
   publish_fault ((example_submit small_files)\<lparr>publish_fault := Some (GoogleCloudError ''504 Deadline Exceeded'')\<rparr>) \<noteq> None \<and>
   import_products_file example_config
      ((example_submit small_files)\<lparr>publish_fault := Some (GoogleCloudError ''504 Deadline Exceeded'')\<rparr>)
      (Some small_upload) ''user-123'' empty_system
     = (Inl (BusinessLogicError
               (publish_failed_msg ''None Error al publicar mensaje en Pub/Sub: 504 Deadline Exceeded'')),
        system_with_file) \<and>
   histories empty_system ''job-1'' = None \<and>
   histories system_with_file ''job-1'' = Some stored_job \<and>
   status stored_job = ''En curso'' \<and>
   blobs system_with_file (''processed_products/'' @ file_name stored_job) \<noteq> None \<and>
   published system_with_file = [] \<and>
   publish_fault (example_submit small_files) = None \<and>
   import_products_file example_config (example_submit small_files) (Some small_upload)
      ''user-123'' empty_system
     = (Inr (Some ''job-1'', ''Archivo cargado exitosamente''),
        system_with_file\<lparr>published := [example_event]\<rparr>) \<and>
   \<not> insert_succeeds (example_submit small_files)
        (new_job (example_submit small_files) ''products.csv'' ''user-123'')
        (histories system_without_file) \<and>
   import_products_file example_config (example_submit small_files) (Some small_upload)
      ''user-123'' system_without_file
     = (Inl (BusinessLogicError
               (''Error al crear registro de historial: Error al crear registro de historial: ''
                @ duplicate_key_msg)),
        system_with_file) \<and>
   upload_fault ((example_submit small_files)\<lparr>upload_fault := Some ''503 Service Unavailable''\<rparr>)
     \<noteq> None \<and>
   import_products_file example_config
      ((example_submit small_files)\<lparr>upload_fault := Some ''503 Service Unavailable''\<rparr>)
      (Some small_upload) ''user-123'' empty_system
     = (Inl (BusinessLogicError
               ''Error al subir archivo a Cloud Storage: 503 Service Unavailable''),
        empty_system) \<and>
   \<not> import_passes example_config (example_submit small_files)
        (Some (small_upload\<lparr>filename := Some ''products.''\<rparr>)) ''user-123'' \<and>
   import_products_file example_config (example_submit small_files)
      (Some (small_upload\<lparr>filename := Some ''products.''\<rparr>)) ''user-123'' empty_system
     = (Inl (ValidationError ''Solo se permiten archivos CSV/Excel''), empty_system)"
proof -
  let ?E = "(example_submit small_files)\<lparr>publish_fault := Some (GoogleCloudError ''504 Deadline Exceeded'')\<rparr>"
  have passes: "import_passes example_config ?E (Some small_upload) ''user-123''"
    by (rule small_passes) (simp add: example_submit_def)
  have fn: "filename small_upload = Some ''products.csv''" by (simp add: small_upload_def)
  have ins: "insert_succeeds ?E (new_job ?E ''products.csv'' ''user-123'') (histories empty_system)"
    by (rule small_insert_succeeds) (simp_all add: example_submit_def)
  have job: "new_job ?E ''products.csv'' ''user-123'' = stored_job"
    by (rule small_new_job) (simp_all add: example_submit_def)
  have up: "upload_fault ?E = None" and pf: "publish_fault ?E \<noteq> None"
    and id: "history_uuid ?E = ''job-1''"
    by (simp_all add: example_submit_def)
  have pre: "import_passes example_config ?E (Some small_upload) ''user-123'' \<and>
             Some small_upload = Some small_upload \<and> filename small_upload = Some ''products.csv''"
    using passes fn by simp
  have hyp: "upload_fault ?E = None \<and>
             insert_succeeds ?E (new_job ?E ''products.csv'' ''user-123'') (histories empty_system) \<and>
             publish_fault ?E \<noteq> None"
    using up ins pf by simp
  note T = submission_effects_in_order [of example_config ?E "Some small_upload" "''user-123''"
      empty_system small_upload "''products.csv''"]
  note B = T [THEN conjunct2, THEN mp, OF pre]
  note P = B [THEN conjunct2, THEN conjunct2, THEN conjunct1, THEN mp, OF hyp]
  from P obtain m where
    "import_products_file example_config ?E (Some small_upload) ''user-123'' empty_system
       = (Inl (BusinessLogicError (publish_failed_msg m)),
          empty_system\<lparr>blobs := (blobs empty_system)(storage_path example_config ?E ''products.csv''
                            \<mapsto> uploaded_blob example_config ''products.csv'' (stream small_upload)),
            histories := (histories empty_system)(history_uuid ?E
                            \<mapsto> new_job ?E ''products.csv'' ''user-123'')\<rparr>)"
    by (rule exE)
  then have "histories (snd (import_products_file example_config ?E (Some small_upload)
                ''user-123'' empty_system)) (history_uuid ?E)
               = Some (new_job ?E ''products.csv'' ''user-123'')"
    by simp
  then have kept: "histories system_with_file ''job-1'' = Some stored_job"
    unfolding small_publish_failure job id by simp
  have rest: "histories empty_system ''job-1'' = None" "status stored_job = ''En curso''"
    "blobs system_with_file (''processed_products/'' @ file_name stored_job) \<noteq> None"
    "published system_with_file = []"
    by (simp_all add: empty_system_def stored_job_def system_with_file_def
          system_without_file_def)
  have others: "publish_fault (example_submit small_files) = None"
    "\<not> insert_succeeds (example_submit small_files)
        (new_job (example_submit small_files) ''products.csv'' ''user-123'')
        (histories system_without_file)"
    "upload_fault ((example_submit small_files)\<lparr>upload_fault := Some ''503 Service Unavailable''\<rparr>)
       \<noteq> None"
    by (simp_all add: example_submit_def insert_succeeds_def system_without_file_def
          empty_system_def)
  have rejected: "\<not> import_passes example_config (example_submit small_files)
        (Some (small_upload\<lparr>filename := Some ''products.''\<rparr>)) ''user-123''"
    by (rule unvalidated_name_fails [where n = "''products.''"])
       (simp_all add: validate_file_type_def file_extension_def lower_simps)
  show ?thesis
    using passes fn up ins pf small_publish_failure kept rest others rejected small_success
      small_insert_failure small_upload_failure trailing_dot_rejected
    by simp
qed

section \<open>The extension of the generated storage key\<close>

lemma validated_name_parts:
  assumes "validate_file_type n = None"
  shows "CHR ''.'' \<in> set n \<and> snd (rsplit1 CHR ''.'' n) \<noteq> [] \<and>
         file_extension n \<in> set [''csv'', ''xls'', ''xlsx'']"
proof -
  from assms have d: "CHR ''.'' \<in> set n"
    and x: "file_extension n \<in> set [''csv'', ''xls'', ''xlsx'']"
    by (auto simp: validate_file_type_def split: if_splits)
  have "file_extension n = lower (snd (rsplit1 CHR ''.'' n))"
    by (simp add: file_extension_eq rsplit1_def)
  with x have "lower (snd (rsplit1 CHR ''.'' n)) \<noteq> []" by auto
  then have "snd (rsplit1 CHR ''.'' n) \<noteq> []" by (simp add: lower_Nil_iff)
  with d x show ?thesis by simp
qed

text \<open>
  C10. The handler generates a storage key only for a file name that
  \<open>_validate_file_type\<close> has accepted: the only call of \<open>_generate_new_filename\<close>
  comes after that check, and a submission whose file name fails it is rejected with no
  store changed. Every accepted name contains a dot, and its key is \<open>base_uuid.ext\<close>,
  where \<open>base\<close> and \<open>ext\<close> are the parts of the name before and after its last
  dot; the extension by which the consumer picks the parser is the same for the key and
  for the original name, so that the consumer reads the stored file with the parser with
  which the submission read the original.
\<close>

theorem generated_key_keeps_extension:
  assumes "filename f = Some original_filename"
  shows "(validate_file_type original_filename \<noteq> None \<longrightarrow>
            (\<exists>m. import_products_file C E (Some f) uid s = (Inl (ValidationError m), s))) \<and>
         (validate_file_type original_filename = None \<longrightarrow>
            (\<exists>base ext. original_filename = base @ ''.'' @ ext \<and> CHR ''.'' \<notin> set ext \<and>
               generate_new_filename original_filename uuid = base @ ''_'' @ uuid @ ''.'' @ ext \<and>
               file_extension (generate_new_filename original_filename uuid)
                 = file_extension original_filename \<and>
               read_file L (generate_new_filename original_filename uuid) bs
                 = eager_parse L original_filename bs))"
proof (intro conjI impI)
  assume "validate_file_type original_filename \<noteq> None"
  with assms have "\<not> import_passes C E (Some f) uid" by (rule unvalidated_name_fails)
  then obtain m where "import_products_file_try C E (Some f) uid s = (Inl (ValidationError m), s)"
    using import_try_rejected by blast
  then have "import_products_file C E (Some f) uid s = (Inl (ValidationError m), s)"
    by (rule import_products_file_ValidationError)
  then show "\<exists>m. import_products_file C E (Some f) uid s = (Inl (ValidationError m), s)" ..
next
  let ?b = "fst (rsplit1 CHR ''.'' original_filename)"
  let ?e = "snd (rsplit1 CHR ''.'' original_filename)"
  assume "validate_file_type original_filename = None"
  note v = validated_name_parts [OF this]
  have 1: "original_filename = ?b @ ''.'' @ ?e"
    using rsplit1_append [of "CHR ''.''" original_filename] v by simp
  have 2: "CHR ''.'' \<notin> set ?e" by (rule rsplit1_ext_no_sep)
  have 3: "generate_new_filename original_filename uuid = ?b @ ''_'' @ uuid @ ''.'' @ ?e"
    using v by (simp add: generate_new_filename_def split_beta)
  have 4: "file_extension (?b @ ''_'' @ uuid @ ''.'' @ ?e) = lower ?e"
    using file_extension_append [OF 2, of "?b @ ''_'' @ uuid"] by simp
  have 5: "file_extension original_filename = lower ?e"
    using file_extension_append [OF 2, of ?b] 1 by simp
  have 6: "file_extension (generate_new_filename original_filename uuid)
             = file_extension original_filename"
    using 3 4 5 by simp
  have 7: "read_file L (generate_new_filename original_filename uuid) bs
             = eager_parse L original_filename bs"
    using v unfolding read_file_def eager_parse_def 6 Let_def by auto
  show "\<exists>base ext. original_filename = base @ ''.'' @ ext \<and> CHR ''.'' \<notin> set ext \<and>
               generate_new_filename original_filename uuid = base @ ''_'' @ uuid @ ''.'' @ ext \<and>
               file_extension (generate_new_filename original_filename uuid)
                 = file_extension original_filename \<and>
               read_file L (generate_new_filename original_filename uuid) bs
                 = eager_parse L original_filename bs"
    using 1 2 3 6 7 by metis
qed

theorem generated_key_keeps_extension_witness:
  "filename (small_upload\<lparr>filename := Some ''Products.CSV''\<rparr>) = Some ''Products.CSV'' \<and>
   validate_file_type ''Products.CSV'' = None \<and>
   generate_new_filename ''Products.CSV'' example_uuid = ''Products_'' @ example_uuid @ ''.CSV'' \<and>
   file_extension (generate_new_filename ''Products.CSV'' example_uuid) = ''csv'' \<and>
   read_file (example_lib small_files) (generate_new_filename ''Products.CSV'' example_uuid)
       two_rows_csv
     = Inr [row_bad, row_valid] \<and>
   filename (small_upload\<lparr>filename := Some ''products.''\<rparr>) = Some ''products.'' \<and>
   validate_file_type ''products.'' \<noteq> None \<and>
   import_products_file example_config (example_submit small_files)
      (Some (small_upload\<lparr>filename := Some ''products.''\<rparr>)) ''user-123'' empty_system
     = (Inl (ValidationError ''Solo se permiten archivos CSV/Excel''), empty_system)"
proof -
  have n: "filename (small_upload\<lparr>filename := Some ''Products.CSV''\<rparr>) = Some ''Products.CSV''"
    by simp
  have a: "validate_file_type ''Products.CSV'' = None"
    by (simp add: validate_file_type_def file_extension_def lower_simps)
  have c: "file_extension ''Products.CSV'' = ''csv''"
    by (simp add: file_extension_def lower_simps)
  have d: "generate_new_filename ''Products.CSV'' example_uuid = ''Products_'' @ example_uuid @ ''.CSV''"
    by (simp add: generate_new_filename_def rsplit1_def)
  have e: "eager_parse (example_lib small_files) ''Products.CSV'' two_rows_csv
             = Inr [row_bad, row_valid]"
    by (simp add: eager_parse_def c example_lib_def small_files_def)
  note T = generated_key_keeps_extension [where uuid = example_uuid
      and L = "example_lib small_files" and bs = two_rows_csv, OF n]
  from T [THEN conjunct2, THEN mp, OF a]
  have "file_extension (generate_new_filename ''Products.CSV'' example_uuid)
          = file_extension ''Products.CSV'' \<and>
        read_file (example_lib small_files) (generate_new_filename ''Products.CSV'' example_uuid)
            two_rows_csv
          = eager_parse (example_lib small_files) ''Products.CSV'' two_rows_csv"
    by blast
  moreover have "validate_file_type ''products.'' \<noteq> None"
    by (simp add: validate_file_type_def file_extension_def lower_simps)
  ultimately show ?thesis using a c d e trailing_dot_rejected by simp
qed

section \<open>The row loop\<close>

lemma length_outcomes: "length (outcomes E i rows cat) = length rows"
  by (induction rows arbitrary: i cat) (auto split: prod.splits)

lemma row_loop_outcomes:
  "\<exists>cat'. row_loop E i rows (s, f, es, cat) =
     (s + length (filter (\<lambda>out. \<not> isl out) (outcomes E i rows cat)),
      f + length (filter isl (outcomes E i rows cat)),
      es @ error_lines i (outcomes E i rows cat), cat')"
proof (induction rows arbitrary: i s f es cat)
  case Nil
  show ?case by simp
next
  case (Cons r rs)
  obtain out cat1 where ing: "ingest_row E i r cat = (out, cat1)" by (cases "ingest_row E i r cat")
  show ?case
  proof (cases out)
    case (Inl m)
    from Cons [of "Suc i" s "f + 1" "es @ [''Fila '' @ show_nat (i + 2) @ '': '' @ m]" cat1]
    show ?thesis using ing Inl by auto
  next
    case (Inr q)
    from Cons [of "Suc i" "s + 1" f es cat1]
    show ?thesis using ing Inr by auto
  qed
qed

lemma upt_Suc_shift: "[0..<Suc n] = 0 # map Suc [0..<n]"
  by (simp add: upt_conv_Cons map_Suc_upt del: upt_Suc)

lemma filter_upt_Cons:
  "filter P [0..<Suc n] = (if P 0 then [0] else []) @ map Suc (filter (P \<circ> Suc) [0..<n])"
  by (simp add: upt_Suc_shift filter_map del: upt_Suc)

lemma error_lines_indexed:
  "error_lines i outs =
     map (\<lambda>k. ''Fila '' @ show_nat (i + k + 2) @ '': '' @ projl (outs ! k))
         (filter (\<lambda>k. isl (outs ! k)) [0..<length outs])"
proof (induction outs arbitrary: i)
  case Nil
  show ?case by simp
next
  case (Cons out outs)
  show ?case
    by (cases out) (simp_all add: filter_upt_Cons Cons comp_def del: upt_Suc)
qed

lemma count_failed_indexed:
  "length (filter isl outs) = length (filter (\<lambda>k. isl (outs ! k)) [0..<length outs])"
  by (induction outs) (simp_all add: filter_upt_Cons comp_def del: upt_Suc)

lemma count_outcomes: "length (filter (\<lambda>out. \<not> isl out) outs) = length outs - length (filter isl outs)"
  by (induction outs) (auto simp: Suc_diff_le)

lemma try_bind_case: "try_bind x f = (case x of Inl e \<Rightarrow> Inl e | Inr v \<Rightarrow> f v)"
  by (cases x) simp_all

lemma getitem_missing: "map_of r c = None \<Longrightarrow> getitem r c = Inl (KeyError c)"
  by (simp add: getitem_def)

lemma getitem_present: "map_of r c = Some v \<Longrightarrow> getitem r c = Inr v"
  by (simp add: getitem_def)

lemma str_strip_col_missing: "map_of r c = None \<Longrightarrow> str_strip_col L r c = Inl (KeyError c)"
  by (simp add: str_strip_col_def getitem_def)

lemma str_strip_col_present:
  "map_of r c = Some v \<Longrightarrow> str_strip_col L r c = Inr (strip (py_str L v))"
  by (simp add: str_strip_col_def getitem_def)

lemma description_never_raises:
  "\<exists>d. (if notna (map_of r ''description'') then str_strip_col L r ''description'' else Inr [])
        = Inr d"
  by (cases "map_of r ''description''") (auto simp: str_strip_col_present)

lemma create_product_from_row_Inl:
  "isl (create_product_from_row_body L r) \<Longrightarrow> \<exists>m. create_product_from_row L r = Inl m"
  by (cases "create_product_from_row_body L r")
     (auto simp: create_product_from_row_def split: exn.splits)

lemma body_missing_fails:
  assumes "col \<in> set required_columns" and "map_of r col = None"
  shows "isl (create_product_from_row_body L r)"
  using assms
  by (auto simp: required_columns_def create_product_from_row_body_def try_bind_case
        getitem_missing str_strip_col_missing
        split: sum.splits)


lemma body_missing_cited:
  assumes "col \<in> set required_columns" and "map_of r col = None"
    and "\<forall>c\<in>set required_columns. c \<noteq> col \<longrightarrow> map_of r c \<noteq> None"
    and "conversions_ok L r"
  shows "create_product_from_row_body L r = Inl (KeyError col)"
proof -
  obtain d where d: "(if notna (map_of r ''description'') then str_strip_col L r ''description''
                      else Inr []) = Inr d"
    using description_never_raises by blast
  have present: "\<exists>v. map_of r c = Some v" if "c \<in> set required_columns" "c \<noteq> col" for c
    using assms(3) that by auto
  have exp: "\<exists>x. parse_expiration L v = Inr x" if "map_of r ''expiration_date'' = Some v" for v
    using assms(4) that by (cases "parse_expiration L v") (auto simp: conversions_ok_def)
  have qty: "\<exists>x. py_int L v = Inr x" if "map_of r ''quantity'' = Some v" for v
    using assms(4) that by (cases "py_int L v") (auto simp: conversions_ok_def)
  have prc: "\<exists>x. py_float L v = Inr x" if "map_of r ''price'' = Some v" for v
    using assms(4) that by (cases "py_float L v") (auto simp: conversions_ok_def)
  note defs = create_product_from_row_body_def getitem_missing getitem_present
    str_strip_col_missing str_strip_col_present d
  from assms(1) have "col = ''expiration_date'' \<or> col = ''sku'' \<or> col = ''name'' \<or> col = ''quantity'' \<or> col = ''price'' \<or> col = ''location'' \<or> col = ''product_type'' \<or> col = ''provider_id''"
    by (simp add: required_columns_def)
  then show ?thesis
  proof (elim disjE)
    assume c1: "col = ''expiration_date''"
    show ?thesis
      using assms(2) c1  by (simp add: defs)
  next
    assume c2: "col = ''sku''"
    obtain v0 where v0: "map_of r ''expiration_date'' = Some v0"
      using present [of "''expiration_date''"] c2 by (auto simp: required_columns_def)
    obtain x0 where x0: "parse_expiration L v0 = Inr x0"
      using exp [OF v0] by blast
    show ?thesis
      using assms(2) c2 v0 x0 by (simp add: defs)
  next
    assume c3: "col = ''name''"
    obtain v0 where v0: "map_of r ''expiration_date'' = Some v0"
      using present [of "''expiration_date''"] c3 by (auto simp: required_columns_def)
    obtain x0 where x0: "parse_expiration L v0 = Inr x0"
      using exp [OF v0] by blast
    obtain v1 where v1: "map_of r ''sku'' = Some v1"
      using present [of "''sku''"] c3 by (auto simp: required_columns_def)
    show ?thesis
      using assms(2) c3 v0 x0 v1 by (simp add: defs)
  next
    assume c4: "col = ''quantity''"
    obtain v0 where v0: "map_of r ''expiration_date'' = Some v0"
      using present [of "''expiration_date''"] c4 by (auto simp: required_columns_def)
    obtain x0 where x0: "parse_expiration L v0 = Inr x0"
      using exp [OF v0] by blast
    obtain v1 where v1: "map_of r ''sku'' = Some v1"
      using present [of "''sku''"] c4 by (auto simp: required_columns_def)
    obtain v2 where v2: "map_of r ''name'' = Some v2"
      using present [of "''name''"] c4 by (auto simp: required_columns_def)
    show ?thesis
      using assms(2) c4 v0 x0 v1 v2 by (simp add: defs)
  next
    assume c5: "col = ''price''"
    obtain v0 where v0: "map_of r ''expiration_date'' = Some v0"
      using present [of "''expiration_date''"] c5 by (auto simp: required_columns_def)
    obtain x0 where x0: "parse_expiration L v0 = Inr x0"
      using exp [OF v0] by blast
    obtain v1 where v1: "map_of r ''sku'' = Some v1"
      using present [of "''sku''"] c5 by (auto simp: required_columns_def)
    obtain v2 where v2: "map_of r ''name'' = Some v2"
      using present [of "''name''"] c5 by (auto simp: required_columns_def)
    obtain v3 where v3: "map_of r ''quantity'' = Some v3"
      using present [of "''quantity''"] c5 by (auto simp: required_columns_def)
    obtain x3 where x3: "py_int L v3 = Inr x3"
      using qty [OF v3] by blast
    show ?thesis
      using assms(2) c5 v0 x0 v1 v2 v3 x3 by (simp add: defs)
  next
    assume c6: "col = ''location''"
    obtain v0 where v0: "map_of r ''expiration_date'' = Some v0"
      using present [of "''expiration_date''"] c6 by (auto simp: required_columns_def)
    obtain x0 where x0: "parse_expiration L v0 = Inr x0"
      using exp [OF v0] by blast
    obtain v1 where v1: "map_of r ''sku'' = Some v1"
      using present [of "''sku''"] c6 by (auto simp: required_columns_def)
    obtain v2 where v2: "map_of r ''name'' = Some v2"
      using present [of "''name''"] c6 by (auto simp: required_columns_def)
    obtain v3 where v3: "map_of r ''quantity'' = Some v3"
      using present [of "''quantity''"] c6 by (auto simp: required_columns_def)
    obtain x3 where x3: "py_int L v3 = Inr x3"
      using qty [OF v3] by blast
    obtain v4 where v4: "map_of r ''price'' = Some v4"
      using present [of "''price''"] c6 by (auto simp: required_columns_def)
    obtain x4 where x4: "py_float L v4 = Inr x4"
      using prc [OF v4] by blast
    show ?thesis
      using assms(2) c6 v0 x0 v1 v2 v3 x3 v4 x4 by (simp add: defs)
  next
    assume c7: "col = ''product_type''"
    obtain v0 where v0: "map_of r ''expiration_date'' = Some v0"
      using present [of "''expiration_date''"] c7 by (auto simp: required_columns_def)
    obtain x0 where x0: "parse_expiration L v0 = Inr x0"
      using exp [OF v0] by blast
    obtain v1 where v1: "map_of r ''sku'' = Some v1"
      using present [of "''sku''"] c7 by (auto simp: required_columns_def)
    obtain v2 where v2: "map_of r ''name'' = Some v2"
      using present [of "''name''"] c7 by (auto simp: required_columns_def)
    obtain v3 where v3: "map_of r ''quantity'' = Some v3"
      using present [of "''quantity''"] c7 by (auto simp: required_columns_def)
    obtain x3 where x3: "py_int L v3 = Inr x3"
      using qty [OF v3] by blast
    obtain v4 where v4: "map_of r ''price'' = Some v4"
      using present [of "''price''"] c7 by (auto simp: required_columns_def)
    obtain x4 where x4: "py_float L v4 = Inr x4"
      using prc [OF v4] by blast
    obtain v5 where v5: "map_of r ''location'' = Some v5"
      using present [of "''location''"] c7 by (auto simp: required_columns_def)
    show ?thesis
      using assms(2) c7 v0 x0 v1 v2 v3 x3 v4 x4 v5 by (simp add: defs)
  next
    assume c8: "col = ''provider_id''"
    obtain v0 where v0: "map_of r ''expiration_date'' = Some v0"
      using present [of "''expiration_date''"] c8 by (auto simp: required_columns_def)
    obtain x0 where x0: "parse_expiration L v0 = Inr x0"
      using exp [OF v0] by blast
    obtain v1 where v1: "map_of r ''sku'' = Some v1"
      using present [of "''sku''"] c8 by (auto simp: required_columns_def)
    obtain v2 where v2: "map_of r ''name'' = Some v2"
      using present [of "''name''"] c8 by (auto simp: required_columns_def)
    obtain v3 where v3: "map_of r ''quantity'' = Some v3"
      using present [of "''quantity''"] c8 by (auto simp: required_columns_def)
    obtain x3 where x3: "py_int L v3 = Inr x3"
      using qty [OF v3] by blast
    obtain v4 where v4: "map_of r ''price'' = Some v4"
      using present [of "''price''"] c8 by (auto simp: required_columns_def)
    obtain x4 where x4: "py_float L v4 = Inr x4"
      using prc [OF v4] by blast
    obtain v5 where v5: "map_of r ''location'' = Some v5"
      using present [of "''location''"] c8 by (auto simp: required_columns_def)
    obtain v6 where v6: "map_of r ''product_type'' = Some v6"
      using present [of "''product_type''"] c8 by (auto simp: required_columns_def)
    show ?thesis
      using assms(2) c8 v0 x0 v1 v2 v3 x3 v4 x4 v5 v6 by (simp add: defs)
  qed
qed

lemmas row_simps = create_product_from_row_def create_product_from_row_body_def getitem_def
  parse_expiration_def str_strip_col_def optional_col_def replace_Z_def strip_def isspace_def
lemmas validate_simps = product_validate_def validate_sku_def validate_name_def
  validate_expiration_date_def validate_quantity_def validate_price_def validate_location_def
  validate_product_type_def validate_provider_id_def validate_photo_filename_def
  sku_pattern_def name_pattern_def location_pattern_def uuid_pattern_def re_dollar_def
  isdigit_def ishex_def name_char_def endswith_def valid_types_def strip_def isspace_def lower_simps

lemma upt_36: "[0..<36] = [0,1,2,3,4,5,6,7,8,9,10,11,12,13,14,15,16,17,18,19,20,21,22,23,24,
                          25,26,27,28,29,30,31,32,33,34,35]"
  by (simp add: upt_rec)

lemma map_row_valid: "create_product_from_row (example_lib fs) row_valid = Inr product_valid"
  by (simp add: row_simps example_lib_def row_valid_def product_valid_def)

lemma map_row_bad:
  "create_product_from_row (example_lib fs) row_bad
     = Inr (product_valid\<lparr>sku := ''BAD'', name := ''Ibuprofeno 400mg'', quantity := 50,
              price := FNum 3500, location := ''B-02-03'', description := ''Antiinflamatorio'',
              product_type := ''Seguridad'',
              provider_id := ''650e8400-e29b-41d4-a716-446655440001'',
              photo_filename := Some ''photo2.jpg'',
              photo_url := Some ''https://example.com/photo2.jpg''\<rparr>)"
  by (simp add: row_simps example_lib_def row_bad_def product_valid_def)

lemma map_row_no_description:
  "create_product_from_row (example_lib fs) row_no_description
     = Inr (product_valid\<lparr>description := []\<rparr>)"
  by (simp add: row_simps example_lib_def row_no_description_def row_valid_def product_valid_def)

lemma validate_product_valid:
  "product_validate (example_lib fs) 1762387200 (product_valid\<lparr>description := d\<rparr>)
     = Inr (product_valid\<lparr>description := d\<rparr>)"
  by (simp add: validate_simps example_lib_def product_valid_def upt_36)

lemma validate_product_bad:
  "sku p = ''BAD'' \<Longrightarrow>
   product_validate L now p
     = Inl (''El SKU debe seguir el formato MED-XXXX (4 d'' @ [CHR 0xED]
            @ ''gitos num'' @ [CHR 0xE9] @ ''ricos)'')"
  by (simp add: product_validate_def validate_sku_def sku_pattern_def re_dollar_def)


lemma ingest_bad:
  "ingest_row (example_env fs) i row_bad cat
     = (Inl (''El SKU debe seguir el formato MED-XXXX (4 d'' @ [CHR 0xED]
             @ ''gitos num'' @ [CHR 0xE9] @ ''ricos)''), cat)"
  by (simp add: ingest_row_def example_env_def map_row_bad product_create_def validate_product_bad)

lemma validate_product_valid_plain:
  "product_validate (example_lib fs) 1762387200 product_valid = Inr product_valid"
  using validate_product_valid [of fs "description product_valid"] by simp

lemma ingest_new:
  "products cat = [] \<Longrightarrow>
   ingest_row (example_env fs) i row_valid cat
     = (Inr (product_valid\<lparr>prod_id := Some (next_id cat)\<rparr>),
        \<lparr>products = [product_valid\<lparr>prod_id := Some (next_id cat)\<rparr>],
         next_id = Suc (next_id cat)\<rparr>)"
  by (simp add: ingest_row_def example_env_def map_row_valid product_create_def Let_def
        validate_product_valid_plain)

lemma ingest_duplicate:
  "sku product_valid \<in> set (map sku (products cat)) \<Longrightarrow>
   ingest_row (example_env fs) i row_valid cat
     = (Inl ''Error al crear producto: duplicate key value violates unique constraint'', cat)"
  by (simp add: ingest_row_def example_env_def map_row_valid product_create_def Let_def
        validate_product_valid_plain duplicate_key_msg_def)

lemma ingest_no_description:
  "products cat = [] \<Longrightarrow>
   ingest_row (example_env fs) i row_no_description cat
     = (Inr (product_valid\<lparr>description := [], prod_id := Some (next_id cat)\<rparr>),
        \<lparr>products = [product_valid\<lparr>description := [], prod_id := Some (next_id cat)\<rparr>],
         next_id = Suc (next_id cat)\<rparr>)"
  by (simp add: ingest_row_def example_env_def map_row_no_description product_create_def Let_def
        validate_product_valid)

lemma three_rows_read:
  "read_file (lib (example_env three_files)) example_key three_rows_csv
     = Inr [row_bad, row_valid, row_valid]"
  by (simp add: read_file_def file_extension_def lower_simps example_key_def example_env_def
        example_lib_def three_files_def)

lemma three_rows_processed:
  "fst (process_file_content (example_env three_files) three_rows_csv example_key empty_catalog)
     = Inr (3, 1, 2,
            [''Fila 2: El SKU debe seguir el formato MED-XXXX (4 d'' @ [CHR 0xED]
               @ ''gitos num'' @ [CHR 0xE9] @ ''ricos)'',
             ''Fila 4: Error al crear producto: duplicate key value violates unique constraint''])"
  by (simp add: process_file_content_def three_rows_read ingest_bad ingest_new ingest_duplicate
        show_nat.simps empty_catalog_def)

text \<open>
  C1. When the parse of a file succeeds with N data rows, the consumer returns total N,
  failed M and successful N - M, where M is the number of rows whose ingestion raised
  (mapping, validation, uniqueness or database error), and the error list has exactly
  one entry for each of those rows, in row order, of the form \<open>Fila n: message\<close>
  where \<open>n\<close> is the row's number in the file counted from 1 with the header as row 1
  (the data row of index \<open>k\<close>, counted from 0, has \<open>n = k + 2\<close>).
\<close>

theorem ingestion_counts_and_errors:
  assumes "read_file (lib E) fname bs = Inr rows"
  shows "\<exists>cat'. process_file_content E bs fname cat =
           (Inr (length rows,
                 length rows - length (filter (\<lambda>k. isl (outcomes E 0 rows cat ! k)) [0..<length rows]),
                 length (filter (\<lambda>k. isl (outcomes E 0 rows cat ! k)) [0..<length rows]),
                 map (\<lambda>k. ''Fila '' @ show_nat (k + 2) @ '': '' @ projl (outcomes E 0 rows cat ! k))
                     (filter (\<lambda>k. isl (outcomes E 0 rows cat ! k)) [0..<length rows])),
            cat')"
proof -
  let ?outs = "outcomes E 0 rows cat"
  obtain cat' where loop: "row_loop E 0 rows (0, 0, [], cat) =
     (0 + length (filter (\<lambda>out. \<not> isl out) ?outs), 0 + length (filter isl ?outs),
      [] @ error_lines 0 ?outs, cat')"
    using row_loop_outcomes [of E 0 rows 0 0 "[]" cat] by blast
  have n: "length ?outs = length rows" by (rule length_outcomes)
  have 1: "length (filter isl ?outs) = length (filter (\<lambda>k. isl (?outs ! k)) [0..<length rows])"
    using count_failed_indexed [of ?outs] n by simp
  have 2: "length (filter (\<lambda>out. \<not> isl out) ?outs)
             = length rows - length (filter (\<lambda>k. isl (?outs ! k)) [0..<length rows])"
    using count_outcomes [of ?outs] n 1 by simp
  have 3: "error_lines 0 ?outs =
     map (\<lambda>k. ''Fila '' @ show_nat (k + 2) @ '': '' @ projl (?outs ! k))
         (filter (\<lambda>k. isl (?outs ! k)) [0..<length rows])"
    using error_lines_indexed [of 0 ?outs] n by simp
  show ?thesis
    using assms loop 1 2 3 by (simp add: process_file_content_def)
qed


theorem ingestion_counts_and_errors_witness:
  "read_file (lib (example_env three_files)) example_key three_rows_csv
     = Inr [row_bad, row_valid, row_valid] \<and>
   fst (process_file_content (example_env three_files) three_rows_csv example_key empty_catalog)
     = Inr (3, 1, 2,
            [''Fila 2: El SKU debe seguir el formato MED-XXXX (4 d'' @ [CHR 0xED]
               @ ''gitos num'' @ [CHR 0xE9] @ ''ricos)'',
             ''Fila 4: Error al crear producto: duplicate key value violates unique constraint'']) \<and>
   length (filter (\<lambda>k. isl (outcomes (example_env three_files) 0 [row_bad, row_valid, row_valid]
                                empty_catalog ! k))
                  [0..<length [row_bad, row_valid, row_valid]]) = 2"
proof -
  from ingestion_counts_and_errors [OF three_rows_read, of empty_catalog]
  obtain n_ok n_failed errs cat' where
    e: "process_file_content (example_env three_files) three_rows_csv example_key empty_catalog
          = (Inr (length [row_bad, row_valid, row_valid], n_ok, n_failed, errs), cat')"
    and m: "n_failed = length (filter (\<lambda>k. isl (outcomes (example_env three_files) 0
                                   [row_bad, row_valid, row_valid] empty_catalog ! k))
                                [0..<length [row_bad, row_valid, row_valid]])"
    by blast
  from e three_rows_processed have "n_failed = 2" by simp
  with m three_rows_read three_rows_processed show ?thesis by simp
qed

text \<open>
  C7 (as amended). For each of the columns code, name, expiry, quantity, price, location,
  category and owner reference (\<open>sku\<close>, \<open>name\<close>, \<open>expiration_date\<close>, \<open>quantity\<close>,
  \<open>price\<close>, \<open>location\<close>, \<open>product_type\<close>, \<open>provider_id\<close>), a data row that lacks
  the column is a per-row failure and leaves the catalog unchanged; the message cites the
  missing column when no other of these columns is missing and the cells of expiry,
  quantity and price convert.
\<close>

theorem missing_required_column_fails:
  assumes "col \<in> set required_columns" and "map_of r col = None"
  shows "(\<exists>m. create_product_from_row (lib E) r = Inl m \<and> ingest_row E i r cat = (Inl m, cat)) \<and>
         ((\<forall>c\<in>set required_columns. c \<noteq> col \<longrightarrow> map_of r c \<noteq> None) \<and>
          conversions_ok (lib E) r \<longrightarrow>
            ingest_row E i r cat
              = (Inl (''Columna requerida no encontrada: '' @ [CHR 0x27] @ col @ [CHR 0x27]), cat))"
proof -
  from body_missing_fails [OF assms]
  obtain m where m: "create_product_from_row (lib E) r = Inl m"
    using create_product_from_row_Inl by blast
  then have 1: "ingest_row E i r cat = (Inl m, cat)"
    by (simp add: ingest_row_def)
  have 2: "ingest_row E i r cat
              = (Inl (''Columna requerida no encontrada: '' @ [CHR 0x27] @ col @ [CHR 0x27]), cat)"
    if "\<forall>c\<in>set required_columns. c \<noteq> col \<longrightarrow> map_of r c \<noteq> None"
      and "conversions_ok (lib E) r"
    using body_missing_cited [OF assms that]
    by (simp add: ingest_row_def create_product_from_row_def)
  from m 1 2 show ?thesis by blast
qed

theorem missing_required_column_fails_witness:
  "''sku'' \<in> set required_columns \<and> map_of row_no_sku ''sku'' = None \<and>
   None \<notin> set (map (map_of row_no_sku) (remove1 ''sku'' required_columns)) \<and>
   conversions_ok (lib (example_env [])) row_no_sku \<and>
   ingest_row (example_env []) 0 row_no_sku empty_catalog
     = (Inl (''Columna requerida no encontrada: '' @ [CHR 0x27] @ ''sku'' @ [CHR 0x27]),
        empty_catalog)"
proof -
  have a: "''sku'' \<in> set required_columns" by (simp add: required_columns_def)
  have b: "map_of row_no_sku ''sku'' = None" by (simp add: row_no_sku_def row_valid_def)
  have c: "\<forall>c\<in>set required_columns. c \<noteq> ''sku'' \<longrightarrow> map_of row_no_sku c \<noteq> None"
    by (simp add: required_columns_def row_no_sku_def row_valid_def)
  have d: "conversions_ok (lib (example_env [])) row_no_sku"
    by (simp add: conversions_ok_def row_no_sku_def row_valid_def example_env_def example_lib_def
          parse_expiration_def replace_Z_def)
  have e: "None \<notin> set (map (map_of row_no_sku) (remove1 ''sku'' required_columns))"
    by (simp add: required_columns_def row_no_sku_def row_valid_def)
  have "ingest_row (example_env []) 0 row_no_sku empty_catalog
     = (Inl (''Columna requerida no encontrada: '' @ [CHR 0x27] @ ''sku'' @ [CHR 0x27]),
        empty_catalog)"
    using missing_required_column_fails [OF a b, of "example_env []" 0 empty_catalog] c d
    by blast
  with a b d e show ?thesis by blast
qed

text \<open>
  C7 as stated fails for the description column: it is read with \<open>row.get\<close>, a row
  without it gets the empty description, and the validation has no rule for the
  description, so the row is ingested.
\<close>

theorem missing_description_ingested_counterexample:
  "map_of row_no_description ''description'' = None \<and>
   None \<notin> set (map (map_of row_no_description) required_columns) \<and>
   ingest_row (example_env []) 0 row_no_description empty_catalog
     = (Inr (product_valid\<lparr>description := [], prod_id := Some 1\<rparr>),
        \<lparr>products = [product_valid\<lparr>description := [], prod_id := Some 1\<rparr>], next_id = 2\<rparr>)"
proof (intro conjI)
  show "map_of row_no_description ''description'' = None"
    by (simp add: row_no_description_def row_valid_def)
  show "None \<notin> set (map (map_of row_no_description) required_columns)"
    by (simp add: required_columns_def row_no_description_def row_valid_def)
  show "ingest_row (example_env []) 0 row_no_description empty_catalog
     = (Inr (product_valid\<lparr>description := [], prod_id := Some 1\<rparr>),
        \<lparr>products = [product_valid\<lparr>description := [], prod_id := Some 1\<rparr>], next_id = 2\<rparr>)"
    by (simp add: ingest_no_description empty_catalog_def)
qed

end
